theory Spec2Isabelle
  imports Complex_Main "HOL-Library.Sublist"
begin

section \<open>Python values, exceptions and strings\<close>

text \<open>
  The two programs (\<^verbatim>\<open>local_client.py\<close>, the Bundler and Dispatcher, and
  \<^verbatim>\<open>app.py\<close>, the Executor) exchange JSON. A Python value is one of the values
  the JSON codec produces, or some other object (\<open>PObj\<close>: a function, a class instance,
  anything the codec cannot serialise), known by an identifier only. A dictionary is an
  association list read with \<open>map_of\<close>; a float is a finite real (NaN and the
  infinities are left out).
\<close>

datatype pyval =
    PNone
  | PBool bool
  | PInt int
  | PFloat real
  | PStr string
  | PList "pyval list"
  | PDict "(string \<times> pyval) list"
  | PObj nat

text \<open>
  Exceptions. The first seven are the ones the modelled code or the built-in operations it
  uses raise; \<open>Raised is_exc name\<close> is any exception raised by code outside the model
  (the executed bundle, the wrapped local function, a library), where \<open>is_exc\<close> tells
  whether its class derives from \<^verbatim>\<open>Exception\<close> (it does not for
  \<^verbatim>\<open>SystemExit\<close>, \<^verbatim>\<open>KeyboardInterrupt\<close>, \<^verbatim>\<open>GeneratorExit\<close>
  and other direct subclasses of \<^verbatim>\<open>BaseException\<close>).
\<close>

datatype py_exn =
    KeyError pyval
  | TypeError
  | AttributeError
  | BadRequest
  | OSError
  | ValueError
  | RuntimeError string
  | Raised bool string

fun is_Exception :: "py_exn \<Rightarrow> bool" where
  "is_Exception (Raised is_exc name) = is_exc"
| "is_Exception e = True"

text \<open>Truth value of an object, as \<^verbatim>\<open>if x:\<close> and \<^verbatim>\<open>x or y\<close> test it.\<close>

fun truthy :: "pyval \<Rightarrow> bool" where
  "truthy PNone = False"
| "truthy (PBool b) = b"
| "truthy (PInt i) = (i \<noteq> 0)"
| "truthy (PFloat r) = (r \<noteq> 0)"
| "truthy (PStr s) = (s \<noteq> [])"
| "truthy (PList xs) = (xs \<noteq> [])"
| "truthy (PDict kvs) = (kvs \<noteq> [])"
| "truthy (PObj n) = True"

text \<open>\<^verbatim>\<open>d[key]\<close>: KeyError on a dictionary without the key, TypeError on
  every other decoded value (a list or a string wants an integer index, the rest are not
  subscriptable).\<close>

fun py_subscript :: "pyval \<Rightarrow> string \<Rightarrow> py_exn + pyval" where
  "py_subscript (PDict kvs) k =
     (case map_of kvs k of None \<Rightarrow> Inl (KeyError (PStr k)) | Some v \<Rightarrow> Inr v)"
| "py_subscript d k = Inl TypeError"

text \<open>\<^verbatim>\<open>d.get(key, default)\<close>: only a dictionary has the method.\<close>

fun py_get :: "pyval \<Rightarrow> string \<Rightarrow> pyval \<Rightarrow> py_exn + pyval" where
  "py_get (PDict kvs) k dflt =
     (case map_of kvs k of None \<Rightarrow> Inr dflt | Some v \<Rightarrow> Inr v)"
| "py_get d k dflt = Inl AttributeError"

text \<open>Decimal text of an integer, as \<^verbatim>\<open>str\<close> and an f-string print it.\<close>

definition digit_char :: "nat \<Rightarrow> char" where
  "digit_char d = char_of (48 + d)"

function nat_digits :: "nat \<Rightarrow> string" where
  "nat_digits n = (if n < 10 then [digit_char n] else nat_digits (n div 10) @ [digit_char (n mod 10)])"
  by pat_completeness auto
termination
  by (relation "measure (\<lambda>n. n)") auto

declare nat_digits.simps [simp del]

definition str_int :: "int \<Rightarrow> string" where
  "str_int i = (if i < 0 then CHR ''-'' # nat_digits (nat (- i)) else nat_digits (nat i))"

text \<open>
  \<^verbatim>\<open>str(x)\<close> as \<^verbatim>\<open>print\<close> and f-strings apply it. A string prints as
  itself, an integer in decimal, the constants by name; the text of floats, lists,
  dictionaries and other objects is the interpreter's, taken as the parameter \<open>repr\<close>.
\<close>

fun py_str :: "(pyval \<Rightarrow> string) \<Rightarrow> pyval \<Rightarrow> string" where
  "py_str repr (PStr s) = s"
| "py_str repr (PInt i) = str_int i"
| "py_str repr PNone = ''None''"
| "py_str repr (PBool b) = (if b then ''True'' else ''False'')"
| "py_str repr v = repr v"

subsection \<open>String methods used by the Bundler\<close>

text \<open>
  Strings are lists of 8-bit characters, read as the code points below 256. Within
  that range \<^verbatim>\<open>str.splitlines\<close> breaks a line at LF, VT, FF, CR (CR LF counting
  once), FS, GS, RS and NEL, and \<^verbatim>\<open>str.isspace\<close> holds of the characters of
  \<open>is_space\<close>. The two separators beyond the range (U+2028, U+2029) are not
  represented.
\<close>

definition LF :: char where
  "LF = CHR 0x0A"

definition CR :: char where
  "CR = CHR 0x0D"

definition is_linebreak :: "char \<Rightarrow> bool" where
  "is_linebreak c \<longleftrightarrow>
     c = CHR 0x0A \<or> c = CHR 0x0B \<or> c = CHR 0x0C \<or> c = CHR 0x0D \<or>
     c = CHR 0x1C \<or> c = CHR 0x1D \<or> c = CHR 0x1E \<or> c = CHR 0x85"

definition is_space :: "char \<Rightarrow> bool" where
  "is_space c \<longleftrightarrow>
     c = CHR 0x09 \<or> c = CHR 0x0A \<or> c = CHR 0x0B \<or> c = CHR 0x0C \<or> c = CHR 0x0D \<or>
     c = CHR 0x1C \<or> c = CHR 0x1D \<or> c = CHR 0x1E \<or> c = CHR 0x1F \<or>
     c = CHR 0x20 \<or> c = CHR 0x85 \<or> c = CHR 0xA0"

fun splitlines :: "string \<Rightarrow> string list" where
  "splitlines [] = []"
| "splitlines (c # cs) =
     (if is_linebreak c then
        (case cs of
           [] \<Rightarrow> [[]]
         | d # ds \<Rightarrow> if c = CR \<and> d = LF then [] # splitlines ds else [] # splitlines cs)
      else
        (case splitlines cs of
           [] \<Rightarrow> [[c]]
         | l # ls \<Rightarrow> (c # l) # ls))"

definition lstrip :: "string \<Rightarrow> string" where
  "lstrip s = dropWhile is_space s"

definition startswith :: "string \<Rightarrow> string \<Rightarrow> bool" where
  "startswith s p \<longleftrightarrow> take (length p) s = p"

fun join :: "string \<Rightarrow> string list \<Rightarrow> string" where
  "join sep [] = []"
| "join sep [x] = x"
| "join sep (x # y # ys) = x @ sep @ join sep (y # ys)"

text \<open>\<^verbatim>\<open>str.lower\<close> on the ASCII letters; the other characters of the range
  that have a lower-case form do not map to an ASCII letter, so membership in
  \<^verbatim>\<open>("true", "1", "yes")\<close> is decided by the ASCII part.\<close>

definition lower_char :: "char \<Rightarrow> char" where
  "lower_char c =
     (if 65 \<le> (of_char c :: nat) \<and> (of_char c :: nat) \<le> 90 then char_of ((of_char c :: nat) + 32) else c)"

definition lower :: "string \<Rightarrow> string" where
  "lower s = map lower_char s"

section \<open>The Bundler and the Dispatcher (local\_client.py)\<close>

subsection \<open>Process state and function objects\<close>

text \<open>
  The part of the client process the code reads and writes: the environment variables
  (\<^verbatim>\<open>os.environ\<close>) and what has been printed to the console.
\<close>

record proc =
  environ :: "string \<rightharpoonup> string"
  console :: string

text \<open>
  A function object: its \<^verbatim>\<open>__name__\<close>, what \<^verbatim>\<open>inspect.getsource\<close>
  gives for it (the source text, or the error it raises when the source cannot be
  retrieved), and what calling it with positional and keyword arguments does to the
  process and returns or raises.
\<close>

record pyfunc =
  fn_name :: string
  fn_source :: "py_exn + string"
  fn_call :: "pyval list \<Rightarrow> (string \<times> pyval) list \<Rightarrow> proc \<Rightarrow> (py_exn + pyval) \<times> proc"

subsection \<open>Helpers\<close>

definition getenv :: "(string \<rightharpoonup> string) \<Rightarrow> string \<Rightarrow> string \<Rightarrow> string" where
  "getenv env name dflt = (case env name of None \<Rightarrow> dflt | Some v \<Rightarrow> v)"

definition remote_enabled :: "(string \<rightharpoonup> string) \<Rightarrow> bool" where
  "remote_enabled env \<longleftrightarrow>
     lower (getenv env ''USE_REMOTE_EXEC'' ''false'') \<in> set [''true'', ''1'', ''yes'']"

text \<open>The loop \<^verbatim>\<open>while lines and lines[0].lstrip().startswith("@"): lines.pop(0)\<close>.\<close>

fun pop_decorators :: "string list \<Rightarrow> string list" where
  "pop_decorators [] = []"
| "pop_decorators (l # ls) =
     (if startswith (lstrip l) ''@'' then pop_decorators ls else l # ls)"

definition strip_decorators :: "string \<Rightarrow> string" where
  "strip_decorators src = join [LF] (pop_decorators (splitlines src))"

subsection \<open>The helper registry\<close>

text \<open>\<^verbatim>\<open>REMOTE_EXPORTS\<close> is a module-level list; \<^verbatim>\<open>remote_func\<close> appends
  the object and returns it unchanged.\<close>

definition remote_func :: "pyfunc \<Rightarrow> pyfunc list \<Rightarrow> pyfunc \<times> pyfunc list" where
  "remote_func obj exports = (obj, exports @ [obj])"

subsection \<open>Building the bundle\<close>

text \<open>
  \<^verbatim>\<open>textwrap.dedent\<close> is the standard library's; it is the parameter \<open>dedent\<close>.
  The list comprehension over the registry stops at the first object whose source is
  unavailable.
\<close>

fun dep_sources :: "(string \<Rightarrow> string) \<Rightarrow> pyfunc list \<Rightarrow> py_exn + string list" where
  "dep_sources dedent [] = Inr []"
| "dep_sources dedent (obj # objs) =
     (case fn_source obj of
        Inl e \<Rightarrow> Inl e
      | Inr src \<Rightarrow>
          (case dep_sources dedent objs of
             Inl e \<Rightarrow> Inl e
           | Inr rest \<Rightarrow> Inr (dedent (strip_decorators src) # rest)))"

definition full_code :: "(string \<Rightarrow> string) \<Rightarrow> pyfunc list \<Rightarrow> pyfunc \<Rightarrow> py_exn + string" where
  "full_code dedent exports func =
     (case fn_source func of
        Inl e \<Rightarrow> Inl e
      | Inr src \<Rightarrow>
          (let func_source = dedent (strip_decorators src) in
           case dep_sources dedent exports of
             Inl e \<Rightarrow> Inl e
           | Inr deps \<Rightarrow>
               (let bundle_deps_code = join [LF, LF] deps in
                Inr (bundle_deps_code @ [LF, LF] @ func_source))))"

subsection \<open>The Dispatcher\<close>

text \<open>
  What \<^verbatim>\<open>requests.post\<close> hands back: the transport status code, the raw body
  text, and what \<^verbatim>\<open>resp.json()\<close> gives for that body (\<open>None\<close> when decoding
  raises).
\<close>

record http_response =
  status_code :: int
  resp_text :: string
  resp_json :: "pyval option"

text \<open>
  What the client takes from its libraries: \<^verbatim>\<open>textwrap.dedent\<close>,
  \<^verbatim>\<open>requests.post(url, json=payload, timeout=timeout)\<close> (a response, or the error
  it raises: connection failure, timeout, arguments that do not serialise), and the
  interpreter's text for the values \<open>py_str\<close> leaves open.
\<close>

record client_rt =
  dedent :: "string \<Rightarrow> string"
  post :: "string \<Rightarrow> (string \<times> pyval) list \<Rightarrow> int \<Rightarrow> py_exn + http_response"
  repr :: "pyval \<Rightarrow> string"

text \<open>The keyword arguments of \<^verbatim>\<open>remote_if_enabled\<close>, with their defaults.\<close>

record options =
  remote_url :: "string option"
  print_stdout :: bool
  print_traceback :: bool
  timeout :: int

definition default_options :: options where
  "default_options = \<lparr>remote_url = None, print_stdout = True, print_traceback = True, timeout = 30\<rparr>"

text \<open>
  \<^verbatim>\<open>if flag and data.get(key): print(header); print(data[key], end="")\<close>:
  the two echo blocks of the wrapper.
\<close>

definition echo :: "client_rt \<Rightarrow> bool \<Rightarrow> string \<Rightarrow> string \<Rightarrow> pyval \<Rightarrow> proc \<Rightarrow> py_exn + proc" where
  "echo rt flag key header data p =
     (if flag then
        (case py_get data key PNone of
           Inl e \<Rightarrow> Inl e
         | Inr v \<Rightarrow>
             if truthy v
             then Inr (p\<lparr>console := console p @ header @ [LF] @ py_str (repr rt) v\<rparr>)
             else Inr p)
      else Inr p)"

text \<open>\<^verbatim>\<open>resp.status_code == 200 and data.get("status") == "ok"\<close>; the right
  operand is evaluated only when the left one holds.\<close>

definition is_success :: "http_response \<Rightarrow> pyval \<Rightarrow> py_exn + bool" where
  "is_success resp data =
     (if status_code resp = 200 then
        (case py_get data ''status'' PNone of
           Inl e \<Rightarrow> Inl e
         | Inr v \<Rightarrow> Inr (v = PStr ''ok''))
      else Inr False)"

text \<open>The wrapper from the decoded body on: the success and the failure branch.\<close>

definition on_decoded :: "client_rt \<Rightarrow> options \<Rightarrow> http_response \<Rightarrow> pyval \<Rightarrow> proc \<Rightarrow> (py_exn + pyval) \<times> proc" where
  "on_decoded rt opts resp data p =
     (case is_success resp data of
        Inl e \<Rightarrow> (Inl e, p)
      | Inr True \<Rightarrow>
          (case echo rt (print_stdout opts) ''stdout'' ''[REMOTE STDOUT]'' data p of
             Inl e \<Rightarrow> (Inl e, p)
           | Inr p1 \<Rightarrow> (py_subscript data ''result'', p1))
      | Inr False \<Rightarrow>
          (case echo rt (print_stdout opts) ''stdout'' ''[REMOTE STDOUT]'' data p of
             Inl e \<Rightarrow> (Inl e, p)
           | Inr p1 \<Rightarrow>
               (case echo rt (print_traceback opts) ''traceback'' ''[REMOTE TRACEBACK]'' data p1 of
                  Inl e \<Rightarrow> (Inl e, p1)
                | Inr p2 \<Rightarrow>
                    (case py_get data ''error'' PNone of
                       Inl e \<Rightarrow> (Inl e, p2)
                     | Inr err \<Rightarrow>
                         (let err_msg =
                            (if truthy err then py_str (repr rt) err
                             else ''HTTP '' @ str_int (status_code resp))
                          in (Inl (RuntimeError (''Remote execution failed: '' @ err_msg)), p2))))))"

text \<open>The request payload the wrapper builds.\<close>

definition payload_of :: "string \<Rightarrow> string \<Rightarrow> pyval list \<Rightarrow> (string \<times> pyval) list \<Rightarrow> (string \<times> pyval) list" where
  "payload_of code name args kwargs =
     [(''code'', PStr code), (''func_name'', PStr name),
      (''args'', PList args), (''kwargs'', PDict kwargs)]"

text \<open>The remote execution path of the wrapper.\<close>

definition remote_path ::
  "client_rt \<Rightarrow> options \<Rightarrow> string \<Rightarrow> string \<Rightarrow> pyfunc \<Rightarrow> pyval list \<Rightarrow> (string \<times> pyval) list \<Rightarrow> proc \<Rightarrow> (py_exn + pyval) \<times> proc" where
  "remote_path rt opts url code func args kwargs p =
     (let payload = payload_of code (fn_name func) args kwargs
      in case post rt url payload (timeout opts) of
           Inl e \<Rightarrow> (Inl e, p)
         | Inr resp \<Rightarrow>
             (case resp_json resp of
                None \<Rightarrow> (Inl (RuntimeError (''Remote returned non-JSON body: '' @ resp_text resp)), p)
              | Some data \<Rightarrow> on_decoded rt opts resp data p))"

definition wrapper ::
  "client_rt \<Rightarrow> options \<Rightarrow> string \<Rightarrow> string \<Rightarrow> pyfunc \<Rightarrow> pyval list \<Rightarrow> (string \<times> pyval) list \<Rightarrow> proc \<Rightarrow> (py_exn + pyval) \<times> proc" where
  "wrapper rt opts url code func args kwargs p =
     (if \<not> remote_enabled (environ p) then fn_call func args kwargs p
      else remote_path rt opts url code func args kwargs p)"

text \<open>
  \<^verbatim>\<open>decorator(func)\<close> builds the bundle once and returns the wrapper closed over
  it; an unavailable source fails here, at decoration time.
\<close>

definition decorator ::
  "client_rt \<Rightarrow> options \<Rightarrow> string \<Rightarrow> pyfunc list \<Rightarrow> pyfunc \<Rightarrow>
     py_exn + (pyval list \<Rightarrow> (string \<times> pyval) list \<Rightarrow> proc \<Rightarrow> (py_exn + pyval) \<times> proc)" where
  "decorator rt opts url exports func =
     (case full_code (dedent rt) exports func of
        Inl e \<Rightarrow> Inl e
      | Inr code \<Rightarrow> Inr (wrapper rt opts url code func))"

text \<open>
  \<^verbatim>\<open>remote_if_enabled(...)\<close> resolves the endpoint from its argument, the
  environment at that moment (\<open>env0\<close>) and the default; \<^verbatim>\<open>x or y\<close> takes
  \<open>y\<close> also when \<open>x\<close> is the empty string.
\<close>

definition resolve_url :: "options \<Rightarrow> (string \<rightharpoonup> string) \<Rightarrow> string" where
  "resolve_url opts env0 =
     (let env_default_url = getenv env0 ''REMOTE_EXEC_URL'' ''http://localhost:5005/exec''
      in case remote_url opts of
           None \<Rightarrow> env_default_url
         | Some u \<Rightarrow> if u \<noteq> [] then u else env_default_url)"

definition remote_if_enabled ::
  "client_rt \<Rightarrow> options \<Rightarrow> (string \<rightharpoonup> string) \<Rightarrow> pyfunc list \<Rightarrow> pyfunc \<Rightarrow>
     py_exn + (pyval list \<Rightarrow> (string \<times> pyval) list \<Rightarrow> proc \<Rightarrow> (py_exn + pyval) \<times> proc)" where
  "remote_if_enabled rt opts env0 exports func =
     decorator rt opts (resolve_url opts env0) exports func"

section \<open>The standard library's dedent\<close>

text \<open>
  \<^verbatim>\<open>textwrap.dedent\<close> of the standard library, which the Bundler calls on
  every fragment. Lines are the pieces between line feeds; a line of spaces and tabs
  only becomes empty; the margin is the longest text of spaces and tabs that every
  remaining non-empty line begins with (a space and a tab are different characters),
  found by going through the lines' indentations in turn; a non-empty margin is taken
  off every line that begins with it.
\<close>

fun split_lf :: "string \<Rightarrow> string list" where
  "split_lf [] = [[]]"
| "split_lf (c # cs) =
     (if c = LF then [] # split_lf cs
      else (case split_lf cs of
              [] \<Rightarrow> [[c]]
            | l # ls \<Rightarrow> (c # l) # ls))"

definition is_blank_char :: "char \<Rightarrow> bool" where
  "is_blank_char c \<longleftrightarrow> c = CHR 0x20 \<or> c = CHR 0x09"

definition indent_of :: "string \<Rightarrow> string" where
  "indent_of l = takeWhile is_blank_char l"

definition margin_step :: "string \<Rightarrow> string \<Rightarrow> string" where
  "margin_step margin indent =
     (if startswith indent margin then margin
      else if startswith margin indent then indent
      else longest_common_prefix margin indent)"

definition margin_of :: "string list \<Rightarrow> string" where
  "margin_of indents = (case indents of [] \<Rightarrow> [] | i # rest \<Rightarrow> foldl margin_step i rest)"

definition textwrap_dedent :: "string \<Rightarrow> string" where
  "textwrap_dedent s =
     (let ls = map (\<lambda>l. if list_all is_blank_char l then [] else l) (split_lf s);
          margin = margin_of (map indent_of (filter (\<lambda>l. l \<noteq> []) ls))
      in if margin \<noteq> []
         then join [LF] (map (\<lambda>l. if startswith l margin then drop (length margin) l else l) ls)
         else join [LF] ls)"

section \<open>The Executor (app.py)\<close>

subsection \<open>The server process\<close>

text \<open>
  What the handler shares with the other requests served by the same process. The
  handler creates two objects per request, a \<^verbatim>\<open>StringIO\<close> buffer and the
  namespace dictionary, here kept in two stores under fresh identifiers; an object is
  never removed, so whatever an earlier request left behind is still there.
  \<^verbatim>\<open>sys.stdout\<close> is one variable of the whole process: it refers to a buffer
  (\<open>Some b\<close>) or to the console (\<open>None\<close>). The world is everything else that
  interpreted code can reach: modules, files, the rest of the machine.
\<close>

record buffer =
  buf_text :: string
  buf_closed :: bool

record 'w process =
  sys_stdout :: "nat option"
  buffers :: "nat \<Rightarrow> buffer"
  namespaces :: "nat \<Rightarrow> (string \<rightharpoonup> pyval)"
  next_id :: nat
  world :: 'w

text \<open>\<^verbatim>\<open>io.StringIO()\<close> and \<^verbatim>\<open>{}\<close>: a new, empty object.\<close>

definition new_buffer :: "'w process \<Rightarrow> nat \<times> 'w process" where
  "new_buffer st =
     (next_id st,
      st\<lparr>buffers := (buffers st)(next_id st := \<lparr>buf_text = [], buf_closed = False\<rparr>),
         next_id := Suc (next_id st)\<rparr>)"

definition new_dict :: "'w process \<Rightarrow> nat \<times> 'w process" where
  "new_dict st =
     (next_id st,
      st\<lparr>namespaces := (namespaces st)(next_id st := Map.empty),
         next_id := Suc (next_id st)\<rparr>)"

text \<open>
  \<^verbatim>\<open>contextlib.redirect_stdout(buf)\<close>: entering saves the current target of
  \<^verbatim>\<open>sys.stdout\<close> and makes the buffer the target; leaving, normally or by an
  exception, puts the saved target back.
\<close>

definition redirect_enter :: "nat \<Rightarrow> 'w process \<Rightarrow> nat option \<times> 'w process" where
  "redirect_enter b st = (sys_stdout st, st\<lparr>sys_stdout := Some b\<rparr>)"

definition redirect_exit :: "nat option \<Rightarrow> 'w process \<Rightarrow> 'w process" where
  "redirect_exit old st = st\<lparr>sys_stdout := old\<rparr>"

text \<open>
  Interpreted code writes to whatever \<^verbatim>\<open>sys.stdout\<close> refers to at that moment,
  and may close it. Text sent to the console is not kept.
\<close>

definition write_stdout :: "string \<Rightarrow> bool \<Rightarrow> 'w process \<Rightarrow> 'w process" where
  "write_stdout txt closes st =
     (case sys_stdout st of
        None \<Rightarrow> st
      | Some b \<Rightarrow>
          st\<lparr>buffers := (buffers st)
                (b := \<lparr>buf_text = buf_text (buffers st b) @ txt,
                       buf_closed = buf_closed (buffers st b) \<or> closes\<rparr>)\<rparr>)"

text \<open>\<^verbatim>\<open>buf.getvalue()\<close> raises ValueError on a closed buffer.\<close>

definition getvalue :: "nat \<Rightarrow> 'w process \<Rightarrow> py_exn + string" where
  "getvalue b st =
     (if buf_closed (buffers st b) then Inl ValueError else Inr (buf_text (buffers st b)))"

subsection \<open>The interpreter\<close>

text \<open>
  One run of interpreted code, as far as the handler can observe it: the text it wrote
  to \<^verbatim>\<open>sys.stdout\<close> up to its end (its return or the point where it raised),
  whether it closed \<^verbatim>\<open>sys.stdout\<close>, the value it returned or the exception it
  raised, the namespace as the run left it (the dictionary is changed in place, also by
  a run that raises), and the world afterwards.
\<close>

record ('r, 'w) ran =
  written :: string
  closes_stdout :: bool
  outcome :: "py_exn + 'r"
  namespace_after :: "string \<rightharpoonup> pyval"
  world_after :: 'w

text \<open>
  The interpreter, as the handler uses it. \<open>py_exec code env w\<close> is
  \<^verbatim>\<open>exec(code, env, env)\<close> on a namespace holding \<open>env\<close>, in the world
  \<open>w\<close>. \<open>py_call f args kwargs env w\<close> is \<^verbatim>\<open>f(*args, **kwargs)\<close> for an
  object \<open>f\<close> taken from the namespace, which is its globals. \<open>exc_str\<close> is
  \<^verbatim>\<open>str(exc)\<close>, which runs the exception's own \<^verbatim>\<open>__str__\<close> and may raise;
  \<open>format_exc\<close> is \<^verbatim>\<open>traceback.format_exc()\<close> for the exception being handled.
  Each run is taken as one step of the process.
\<close>

record 'w python =
  py_exec :: "pyval \<Rightarrow> (string \<rightharpoonup> pyval) \<Rightarrow> 'w \<Rightarrow> (unit, 'w) ran"
  py_call :: "pyval \<Rightarrow> pyval \<Rightarrow> pyval \<Rightarrow> (string \<rightharpoonup> pyval) \<Rightarrow> 'w \<Rightarrow> (pyval, 'w) ran"
  exc_str :: "py_exn \<Rightarrow> py_exn + string"
  format_exc :: "py_exn \<Rightarrow> string"

text \<open>What a run does to the process: its output goes to the current target of
  \<^verbatim>\<open>sys.stdout\<close>, its namespace and the world are as it left them.\<close>

definition after_run :: "nat \<Rightarrow> ('r, 'w) ran \<Rightarrow> 'w process \<Rightarrow> 'w process" where
  "after_run env r st =
     (write_stdout (written r) (closes_stdout r) st)
       \<lparr>namespaces := (namespaces st)(env := namespace_after r), world := world_after r\<rparr>"

subsection \<open>Requests and replies\<close>

text \<open>A request: what \<^verbatim>\<open>request.get_json(force=True)\<close> finds in the body
  (\<open>None\<close> when the body is not JSON, which raises BadRequest).\<close>

record request =
  req_json :: "pyval option"

definition get_json :: "request \<Rightarrow> py_exn + pyval" where
  "get_json req = (case req_json req of None \<Rightarrow> Inl BadRequest | Some v \<Rightarrow> Inr v)"

text \<open>A reply: the dictionary given to \<^verbatim>\<open>jsonify\<close> and the transport status.\<close>

record reply =
  reply_status :: int
  reply_body :: "(string \<times> pyval) list"

text \<open>\<^verbatim>\<open>jsonify\<close> raises TypeError on an object it cannot serialise.\<close>

fun serializable :: "pyval \<Rightarrow> bool" where
  "serializable (PObj n) = False"
| "serializable (PList xs) = list_all serializable xs"
| "serializable (PDict kvs) = list_all (\<lambda>kv. serializable (snd kv)) kvs"
| "serializable v = True"

definition jsonify :: "(string \<times> pyval) list \<Rightarrow> py_exn + (string \<times> pyval) list" where
  "jsonify d = (if list_all (\<lambda>kv. serializable (snd kv)) d then Inr d else Inl TypeError)"

text \<open>\<^verbatim>\<open>env[func_name]\<close>: the namespace is keyed by names; a list or a
  dictionary as key is unhashable (TypeError), any other absent key is a KeyError.\<close>

fun env_lookup :: "(string \<rightharpoonup> pyval) \<Rightarrow> pyval \<Rightarrow> py_exn + pyval" where
  "env_lookup env (PStr name) =
     (case env name of None \<Rightarrow> Inl (KeyError (PStr name)) | Some f \<Rightarrow> Inr f)"
| "env_lookup env (PList xs) = Inl TypeError"
| "env_lookup env (PDict kvs) = Inl TypeError"
| "env_lookup env k = Inl (KeyError k)"

subsection \<open>The handler, piece by piece\<close>

text \<open>The first five statements of the \<^verbatim>\<open>try\<close> block: the payload and its
  four fields.\<close>

definition read_payload :: "request \<Rightarrow> py_exn + (pyval \<times> pyval \<times> pyval \<times> pyval)" where
  "read_payload req =
     (case get_json req of
        Inl e \<Rightarrow> Inl e
      | Inr payload \<Rightarrow>
     (case py_subscript payload ''code'' of
        Inl e \<Rightarrow> Inl e
      | Inr code \<Rightarrow>
     (case py_subscript payload ''func_name'' of
        Inl e \<Rightarrow> Inl e
      | Inr func_name \<Rightarrow>
     (case py_get payload ''args'' (PList []) of
        Inl e \<Rightarrow> Inl e
      | Inr args \<Rightarrow>
     (case py_get payload ''kwargs'' (PDict []) of
        Inl e \<Rightarrow> Inl e
      | Inr kwargs \<Rightarrow> Inr (code, func_name, args, kwargs))))))"

text \<open>\<^verbatim>\<open>exec(code, env, env)\<close> on the namespace object \<open>env\<close>.\<close>

definition run_exec :: "'w python \<Rightarrow> pyval \<Rightarrow> nat \<Rightarrow> 'w process \<Rightarrow> (py_exn + unit) \<times> 'w process" where
  "run_exec py code env st =
     (let r = py_exec py code (namespaces st env) (world st)
      in (outcome r, after_run env r st))"

text \<open>\<^verbatim>\<open>result = env[func_name](*args, **kwargs)\<close>.\<close>

definition run_call ::
  "'w python \<Rightarrow> pyval \<Rightarrow> pyval \<Rightarrow> pyval \<Rightarrow> nat \<Rightarrow> 'w process \<Rightarrow> (py_exn + pyval) \<times> 'w process" where
  "run_call py func_name args kwargs env st =
     (case env_lookup (namespaces st env) func_name of
        Inl e \<Rightarrow> (Inl e, st)
      | Inr f \<Rightarrow>
          (let r = py_call py f args kwargs (namespaces st env) (world st)
           in (outcome r, after_run env r st)))"

text \<open>The \<^verbatim>\<open>return jsonify({...})\<close> of the \<^verbatim>\<open>try\<close> block: the dictionary is
  built first, reading the buffer, and then serialised.\<close>

definition success_reply :: "pyval \<Rightarrow> nat \<Rightarrow> 'w process \<Rightarrow> py_exn + reply" where
  "success_reply result b st =
     (case getvalue b st of
        Inl e \<Rightarrow> Inl e
      | Inr out \<Rightarrow>
          (case jsonify [(''status'', PStr ''ok''), (''result'', result), (''stdout'', PStr out)] of
             Inl e \<Rightarrow> Inl e
           | Inr body \<Rightarrow> Inr \<lparr>reply_status = 200, reply_body = body\<rparr>))"

text \<open>
  What becomes of an exception that leaves the \<^verbatim>\<open>try\<close> block.
  \<^verbatim>\<open>except Exception\<close> takes it only when its class derives from
  \<^verbatim>\<open>Exception\<close>; otherwise it leaves the handler. Inside the branch,
  \<^verbatim>\<open>str(exc)\<close> and \<^verbatim>\<open>stdout_buf.getvalue()\<close> are evaluated while the
  dictionary is built, in this order, and what either raises leaves the handler too.
\<close>

definition except_branch :: "'w python \<Rightarrow> py_exn \<Rightarrow> nat \<Rightarrow> 'w process \<Rightarrow> py_exn + reply" where
  "except_branch py exc b st =
     (if is_Exception exc then
        (let tb = format_exc py exc in
         case exc_str py exc of
           Inl e \<Rightarrow> Inl e
         | Inr msg \<Rightarrow>
             (case getvalue b st of
                Inl e \<Rightarrow> Inl e
              | Inr out \<Rightarrow>
                  (case jsonify [(''status'', PStr ''error''), (''error'', PStr msg),
                                 (''traceback'', PStr tb), (''stdout'', PStr out)] of
                     Inl e \<Rightarrow> Inl e
                   | Inr body \<Rightarrow> Inr \<lparr>reply_status = 500, reply_body = body\<rparr>)))
      else Inl exc)"

subsection \<open>The handler\<close>

text \<open>
  \<^verbatim>\<open>exec_code\<close> for one request that runs from its first statement to its last
  with no other request of the process taking a step in between: the reply, or the
  exception that leaves the handler, and the process afterwards.
\<close>

definition exec_code :: "'w python \<Rightarrow> request \<Rightarrow> 'w process \<Rightarrow> (py_exn + reply) \<times> 'w process" where
  "exec_code py req st =
     (let (stdout_buf, st1) = new_buffer st in
      case read_payload req of
        Inl e \<Rightarrow> (except_branch py e stdout_buf st1, st1)
      | Inr (code, func_name, args, kwargs) \<Rightarrow>
          (let (env, st2) = new_dict st1;
               (old, st3) = redirect_enter stdout_buf st2;
               (r1, st4) = run_exec py code env st3
           in case r1 of
                Inl e \<Rightarrow>
                  (let st5 = redirect_exit old st4
                   in (except_branch py e stdout_buf st5, st5))
              | Inr u \<Rightarrow>
                  (let (r2, st5) = run_call py func_name args kwargs env st4;
                       st6 = redirect_exit old st5
                   in case r2 of
                        Inl e \<Rightarrow> (except_branch py e stdout_buf st6, st6)
                      | Inr result \<Rightarrow>
                          (case success_reply result stdout_buf st6 of
                             Inl e \<Rightarrow> (except_branch py e stdout_buf st6, st6)
                           | Inr rep \<Rightarrow> (Inr rep, st6)))))"

text \<open>The request a payload becomes once the transport has encoded and decoded it.\<close>

definition request_of :: "(string \<times> pyval) list \<Rightarrow> request" where
  "request_of payload = \<lparr>req_json = Some (PDict payload)\<rparr>"

text \<open>
  Two requests that overlap, as the threaded server allows: request A is taken up to
  the end of its bundle's evaluation, request B then enters its own redirection, and A
  goes on to its invocation and to its reply. The result is A's reply and the process
  afterwards; B's handler has not finished.
\<close>

definition overlapped ::
  "'w python \<Rightarrow> pyval \<Rightarrow> pyval \<Rightarrow> pyval \<Rightarrow> pyval \<Rightarrow> 'w process \<Rightarrow> (py_exn + reply) \<times> nat \<times> 'w process" where
  "overlapped py code func_name args kwargs st =
     (let (buf_a, st1) = new_buffer st;
          (env_a, st2) = new_dict st1;
          (old_a, st3) = redirect_enter buf_a st2;
          (r1, st4) = run_exec py code env_a st3;
          (buf_b, st5) = new_buffer st4;
          (env_b, st6) = new_dict st5;
          (old_b, st7) = redirect_enter buf_b st6;
          (r2, st8) = run_call py func_name args kwargs env_a st7;
          st9 = redirect_exit old_a st8
      in case r2 of
           Inl e \<Rightarrow> (except_branch py e buf_a st9, buf_b, st9)
         | Inr result \<Rightarrow>
             (case success_reply result buf_a st9 of
                Inl e \<Rightarrow> (except_branch py e buf_a st9, buf_b, st9)
              | Inr rep \<Rightarrow> (Inr rep, buf_b, st9)))"

section \<open>Example objects\<close>

text \<open>
  A small client program in the manner of \<^verbatim>\<open>myscript.py\<close>: a helper marked with
  \<^verbatim>\<open>@remote_func\<close> and an entry function under \<^verbatim>\<open>@remote_if_enabled\<close>.
\<close>

definition add_one_src :: string where
  "add_one_src = ''@remote_func\<newline>def add_one(x):\<newline>    return x + 1\<newline>''"

definition compute_src :: string where
  "compute_src = ''@remote_if_enabled(timeout=5)\<newline>def compute(x):\<newline>    return add_one(x) * 2\<newline>''"

definition int_call ::
  "(int \<Rightarrow> int) \<Rightarrow> pyval list \<Rightarrow> (string \<times> pyval) list \<Rightarrow> proc \<Rightarrow> (py_exn + pyval) \<times> proc" where
  "int_call g args kwargs p =
     (case (args, kwargs) of
        ([PInt x], []) \<Rightarrow> (Inr (PInt (g x)), p)
      | _ \<Rightarrow> (Inl TypeError, p))"

definition add_one :: pyfunc where
  "add_one = \<lparr>fn_name = ''add_one'', fn_source = Inr add_one_src, fn_call = int_call (\<lambda>x. x + 1)\<rparr>"

definition compute :: pyfunc where
  "compute = \<lparr>fn_name = ''compute'', fn_source = Inr compute_src, fn_call = int_call (\<lambda>x. (x + 1) * 2)\<rparr>"

text \<open>An entry function that decorates a nested function: the inner decorator line
  is not a leading line of the source.\<close>

definition outer_src :: string where
  "outer_src = ''@remote_if_enabled()\<newline>def outer():\<newline>    @remote_if_enabled()\<newline>    def inner():\<newline>        return 1\<newline>    return inner()\<newline>''"

definition outer :: pyfunc where
  "outer = \<lparr>fn_name = ''outer'', fn_source = Inr outer_src,
            fn_call = (\<lambda>args kwargs p. (case (args, kwargs) of ([], []) \<Rightarrow> (Inr (PInt 1), p) | _ \<Rightarrow> (Inl TypeError, p)))\<rparr>"

text \<open>An entry function whose decorator call is written over three lines.\<close>

definition wide_src :: string where
  "wide_src = ''@remote_if_enabled(\<newline>    timeout=5,\<newline>)\<newline>def wide(x):\<newline>    return x + 1\<newline>''"

definition wide :: pyfunc where
  "wide = \<lparr>fn_name = ''wide'', fn_source = Inr wide_src, fn_call = int_call (\<lambda>x. x + 1)\<rparr>"

text \<open>
  Four endpoints: one answers as the Executor does on success, one answers with a body
  that is not JSON, one answers status 500 with a body that says ok, one answers status
  200 with a body that says error. Every other address is unreachable. On the sources
  above \<^verbatim>\<open>textwrap.dedent\<close> finds no common margin and changes nothing.
\<close>

definition demo_post :: "string \<Rightarrow> (string \<times> pyval) list \<Rightarrow> int \<Rightarrow> py_exn + http_response" where
  "demo_post url payload t =
     (if url = ''http://up/exec'' then
        Inr \<lparr>status_code = 200, resp_text = ''{...}'',
             resp_json = Some (PDict [(''status'', PStr ''ok''), (''result'', PInt 4), (''stdout'', PStr [])])\<rparr>
      else if url = ''http://garbled/exec'' then
        Inr \<lparr>status_code = 502, resp_text = ''<html>Bad Gateway</html>'', resp_json = None\<rparr>
      else if url = ''http://odd/exec'' then
        Inr \<lparr>status_code = 500, resp_text = ''{...}'',
             resp_json = Some (PDict [(''status'', PStr ''ok''), (''result'', PInt 4)])\<rparr>
      else if url = ''http://refused/exec'' then
        Inr \<lparr>status_code = 200, resp_text = ''{...}'',
             resp_json = Some (PDict [(''status'', PStr ''error''), (''error'', PStr ''boom'')])\<rparr>
      else Inl (Raised True ''ConnectionError''))"

definition demo_rt :: client_rt where
  "demo_rt = \<lparr>dedent = (\<lambda>s. s), post = demo_post, repr = (\<lambda>v. ''<object>'')\<rparr>"

definition switch_on :: "string \<rightharpoonup> string" where
  "switch_on = [''USE_REMOTE_EXEC'' \<mapsto> ''true'']"

definition p_off :: proc where
  "p_off = \<lparr>environ = Map.empty, console = []\<rparr>"

definition p_on :: proc where
  "p_on = \<lparr>environ = switch_on, console = []\<rparr>"


text \<open>
  An interpreter for the Executor's examples. Its world is the number of entries in the
  working directory, which only the function \<^verbatim>\<open>tick\<close> changes. It knows the
  bundles and scripts below; every other text is refused as a syntax error. Function
  objects are numbered; an exception is rendered by its class name, a missing key by
  the key in quotes.
\<close>

definition demo_bundle :: string where
  "demo_bundle = ''def two():\<newline>    return 1 + 1\<newline>\<newline>def shout():\<newline>    print(7)\<newline>    return 0\<newline>\<newline>def crash():\<newline>    print(7)\<newline>    return 1/0\<newline>\<newline>def leave():\<newline>    print(7)\<newline>    raise SystemExit(1)\<newline>\<newline>def me():\<newline>    return me''"

definition demo_script :: string where
  "demo_script = ''print(5)\<newline>import no_such_module''"

definition demo_abort :: string where
  "demo_abort = ''print(5)\<newline>raise SystemExit(2)''"

definition demo_mute :: string where
  "demo_mute = ''import sys\<newline>\<newline>def hush():\<newline>    sys.stdout.close()\<newline>    return hush''"

definition demo_noisy :: string where
  "demo_noisy = ''print(1)\<newline>\<newline>def f():\<newline>    print(2)\<newline>    raise ValueError(3)''"

definition demo_tick :: string where
  "demo_tick = ''import os\<newline>\<newline>def tick():\<newline>    n = len(os.listdir())\<newline>    os.mkdir(str(n))\<newline>    return n''"

definition demo_exec :: "pyval \<Rightarrow> (string \<rightharpoonup> pyval) \<Rightarrow> nat \<Rightarrow> (unit, nat) ran" where
  "demo_exec code env w =
     (if code = PStr demo_bundle then
        \<lparr>written = [], closes_stdout = False, outcome = Inr (),
         namespace_after = env(''two'' \<mapsto> PObj 0, ''shout'' \<mapsto> PObj 1, ''crash'' \<mapsto> PObj 2,
                               ''leave'' \<mapsto> PObj 3, ''me'' \<mapsto> PObj 4),
         world_after = w\<rparr>
      else if code = PStr demo_script then
        \<lparr>written = ''5\<newline>'', closes_stdout = False,
         outcome = Inl (Raised True ''ModuleNotFoundError''),
         namespace_after = env, world_after = w\<rparr>
      else if code = PStr demo_abort then
        \<lparr>written = ''5\<newline>'', closes_stdout = False,
         outcome = Inl (Raised False ''SystemExit''),
         namespace_after = env, world_after = w\<rparr>
      else if code = PStr demo_mute then
        \<lparr>written = [], closes_stdout = False, outcome = Inr (),
         namespace_after = env(''sys'' \<mapsto> PObj 9, ''hush'' \<mapsto> PObj 5),
         world_after = w\<rparr>
      else if code = PStr demo_noisy then
        \<lparr>written = ''1\<newline>'', closes_stdout = False, outcome = Inr (),
         namespace_after = env(''f'' \<mapsto> PObj 6),
         world_after = w\<rparr>
      else if code = PStr demo_tick then
        \<lparr>written = [], closes_stdout = False, outcome = Inr (),
         namespace_after = env(''os'' \<mapsto> PObj 9, ''tick'' \<mapsto> PObj 7),
         world_after = w\<rparr>
      else
        \<lparr>written = [], closes_stdout = False, outcome = Inl (Raised True ''SyntaxError''),
         namespace_after = env, world_after = w\<rparr>)"

definition demo_call :: "pyval \<Rightarrow> pyval \<Rightarrow> pyval \<Rightarrow> (string \<rightharpoonup> pyval) \<Rightarrow> nat \<Rightarrow> (pyval, nat) ran" where
  "demo_call f args kwargs env w =
     (if args = PList [] \<and> kwargs = PDict [] then
        (if f = PObj 0 then
           \<lparr>written = [], closes_stdout = False, outcome = Inr (PInt 2),
            namespace_after = env, world_after = w\<rparr>
         else if f = PObj 1 then
           \<lparr>written = ''7\<newline>'', closes_stdout = False, outcome = Inr (PInt 0),
            namespace_after = env, world_after = w\<rparr>
         else if f = PObj 2 then
           \<lparr>written = ''7\<newline>'', closes_stdout = False,
            outcome = Inl (Raised True ''ZeroDivisionError''),
            namespace_after = env, world_after = w\<rparr>
         else if f = PObj 3 then
           \<lparr>written = ''7\<newline>'', closes_stdout = False,
            outcome = Inl (Raised False ''SystemExit''),
            namespace_after = env, world_after = w\<rparr>
         else if f = PObj 4 then
           \<lparr>written = [], closes_stdout = False, outcome = Inr (PObj 4),
            namespace_after = env, world_after = w\<rparr>
         else if f = PObj 5 then
           \<lparr>written = [], closes_stdout = True, outcome = Inr (PObj 5),
            namespace_after = env, world_after = w\<rparr>
         else if f = PObj 6 then
           \<lparr>written = ''2\<newline>'', closes_stdout = False,
            outcome = Inl (Raised True ''ValueError''),
            namespace_after = env, world_after = w\<rparr>
         else if f = PObj 7 then
           \<lparr>written = [], closes_stdout = False, outcome = Inr (PInt (int w)),
            namespace_after = env, world_after = Suc w\<rparr>
         else
           \<lparr>written = [], closes_stdout = False, outcome = Inl TypeError,
            namespace_after = env, world_after = w\<rparr>)
      else
        \<lparr>written = [], closes_stdout = False, outcome = Inl TypeError,
         namespace_after = env, world_after = w\<rparr>)"

fun demo_exc_str :: "py_exn \<Rightarrow> string" where
  "demo_exc_str (Raised b name) = name"
| "demo_exc_str (RuntimeError msg) = msg"
| "demo_exc_str (KeyError (PStr k)) = [CHR 0x27] @ k @ [CHR 0x27]"
| "demo_exc_str e = []"

definition demo_python :: "nat python" where
  "demo_python = \<lparr>py_exec = demo_exec, py_call = demo_call,
                   exc_str = (\<lambda>e. Inr (demo_exc_str e)),
                   format_exc = (\<lambda>e. ''Traceback (most recent call last): '' @ demo_exc_str e)\<rparr>"

text \<open>
  Two states of the server process: a process that has served nothing yet, and one in
  which earlier requests have left buffers and namespaces behind, among them a
  namespace that binds \<^verbatim>\<open>two\<close> to another function, and in which
  \<^verbatim>\<open>sys.stdout\<close> refers to an old buffer.
\<close>

definition st_new :: "nat process" where
  "st_new = \<lparr>sys_stdout = None,
             buffers = (\<lambda>b. \<lparr>buf_text = [], buf_closed = False\<rparr>),
             namespaces = (\<lambda>n. Map.empty),
             next_id = 0, world = 0\<rparr>"

definition st_used :: "nat process" where
  "st_used = \<lparr>sys_stdout = Some 2,
              buffers = (\<lambda>b. \<lparr>buf_text = ''old'', buf_closed = True\<rparr>),
              namespaces = (\<lambda>n. [''two'' \<mapsto> PObj 3, ''x'' \<mapsto> PInt 1]),
              next_id = 6, world = 0\<rparr>"

section \<open>Notions of the specification\<close>

text \<open>
  A text refers to the dispatch and registration mechanism when it names one of the
  client's two decorators.
\<close>

definition mentions_dispatch :: "string \<Rightarrow> bool" where
  "mentions_dispatch s \<longleftrightarrow> sublist ''remote_if_enabled'' s \<or> sublist ''remote_func'' s"

text \<open>
  Valid top-level source does not begin indented: Python refuses a text
  (\<^verbatim>\<open>IndentationError: unexpected indent\<close>) whose first line that is neither blank
  nor a comment begins with a space or a tab.
\<close>

fun first_code_line :: "string list \<Rightarrow> string option" where
  "first_code_line [] = None"
| "first_code_line (l # ls) =
     (if dropWhile is_blank_char l = [] \<or> startswith (dropWhile is_blank_char l) ''#''
      then first_code_line ls else Some l)"

definition unexpected_indent :: "string \<Rightarrow> bool" where
  "unexpected_indent s \<longleftrightarrow>
     (case first_code_line (split_lf s) of
        None \<Rightarrow> False
      | Some l \<Rightarrow> startswith l '' '' \<or> startswith l [CHR 0x09])"

definition opts_up :: options where
  "opts_up = default_options\<lparr>remote_url := Some ''http://up/exec''\<rparr>"

section \<open>Properties of the Dispatcher\<close>

subsection \<open>Auxiliary facts\<close>

lemma decorated_is_wrapper:
  assumes "remote_if_enabled rt opts env0 exports func = Inr w"
  shows "\<exists>code. full_code (dedent rt) exports func = Inr code \<and>
           w = wrapper rt opts (resolve_url opts env0) code func"
  using assms
  by (auto simp: remote_if_enabled_def decorator_def split: sum.splits)

lemma resolve_url_ignores_switch:
  "resolve_url opts (env0(''USE_REMOTE_EXEC'' := x)) = resolve_url opts env0"
  by (simp add: resolve_url_def getenv_def)

lemma compute_decorated:
  "\<exists>w. remote_if_enabled demo_rt opts env0 [add_one] compute = Inr w"
  by (simp add: remote_if_enabled_def decorator_def full_code_def add_one_def compute_def Let_def)

lemma p_off_disabled: "\<not> remote_enabled (environ p_off)"
  by (simp add: p_off_def remote_enabled_def getenv_def lower_def lower_char_def)

lemma p_on_enabled: "remote_enabled (environ p_on)"
  by (simp add: p_on_def switch_on_def remote_enabled_def getenv_def lower_def lower_char_def)

lemma up_post:
  "post demo_rt ''http://up/exec'' payload t =
     Inr \<lparr>status_code = 200, resp_text = ''{...}'',
          resp_json = Some (PDict [(''status'', PStr ''ok''), (''result'', PInt 4), (''stdout'', PStr [])])\<rparr>"
  by (simp add: demo_rt_def demo_post_def)

lemma garbled_post:
  "post demo_rt ''http://garbled/exec'' payload t =
     Inr \<lparr>status_code = 502, resp_text = ''<html>Bad Gateway</html>'', resp_json = None\<rparr>"
  by (simp add: demo_rt_def demo_post_def)

lemma odd_post:
  "post demo_rt ''http://odd/exec'' payload t =
     Inr \<lparr>status_code = 500, resp_text = ''{...}'',
          resp_json = Some (PDict [(''status'', PStr ''ok''), (''result'', PInt 4)])\<rparr>"
  by (simp add: demo_rt_def demo_post_def)

lemma refused_post:
  "post demo_rt ''http://refused/exec'' payload t =
     Inr \<lparr>status_code = 200, resp_text = ''{...}'',
          resp_json = Some (PDict [(''status'', PStr ''error''), (''error'', PStr ''boom'')])\<rparr>"
  by (simp add: demo_rt_def demo_post_def)

lemma remote_up:
  "remote_path demo_rt opts_up (resolve_url opts_up env0) code func args kwargs p_on = (Inr (PInt 4), p_on)"
  by (simp add: remote_path_def resolve_url_def opts_up_def default_options_def up_post
      on_decoded_def is_success_def echo_def)

lemma str_int_500: "str_int 500 = ''500''"
  by code_simp

subsection \<open>Success and failure of a remote call (C1)\<close>

text \<open>
  C1, as the code has it. The claim lets the body's status field alone decide; the
  wrapper tests \<^verbatim>\<open>resp.status_code == 200 and data.get("status") == "ok"\<close>. For
  a response whose body decodes to a dictionary: when the transport status is 200 and
  the body's status field is "ok" the call gives the body's result value (KeyError
  when the body has none), and in every other case, a transport status other than 200
  or a status field other than "ok", the call raises the remote-execution error, whose
  text is "Remote execution failed: " followed by the body's error field or, when that
  is absent or empty, by "HTTP " and the transport status.
\<close>

theorem ok_body_needs_status_200:
  assumes "remote_enabled (environ p)"
    and "post rt url (payload_of code (fn_name func) args kwargs) (timeout opts) = Inr resp"
    and "resp_json resp = Some (PDict body)"
  shows "(status_code resp = 200 \<and> map_of body ''status'' = Some (PStr ''ok'') \<longrightarrow>
            fst (wrapper rt opts url code func args kwargs p) =
              (case map_of body ''result'' of
                 Some r \<Rightarrow> Inr r
               | None \<Rightarrow> Inl (KeyError (PStr ''result''))))
       \<and> (status_code resp \<noteq> 200 \<or> map_of body ''status'' \<noteq> Some (PStr ''ok'') \<longrightarrow>
            fst (wrapper rt opts url code func args kwargs p) =
              Inl (RuntimeError (''Remote execution failed: '' @
                (case map_of body ''error'' of
                   Some err \<Rightarrow> if truthy err then py_str (repr rt) err
                               else ''HTTP '' @ str_int (status_code resp)
                 | None \<Rightarrow> ''HTTP '' @ str_int (status_code resp)))))"
  using assms
  by (auto simp: wrapper_def remote_path_def on_decoded_def is_success_def echo_def Let_def
      split: option.splits)

text \<open>
  Three endpoints: status 200 with a body that says ok and has the result 4; status
  500 with the same body; status 200 with a body that says error and has the error
  text "boom".
\<close>

theorem ok_body_needs_status_200_witness:
  "fst (wrapper demo_rt default_options ''http://up/exec'' compute_src compute [PInt 1] [] p_on) = Inr (PInt 4)
   \<and> fst (wrapper demo_rt default_options ''http://odd/exec'' compute_src compute [PInt 1] [] p_on)
       = Inl (RuntimeError ''Remote execution failed: HTTP 500'')
   \<and> fst (wrapper demo_rt default_options ''http://refused/exec'' compute_src compute [PInt 1] [] p_on)
       = Inl (RuntimeError ''Remote execution failed: boom'')"
proof -
  have a: "fst (wrapper demo_rt default_options ''http://up/exec'' compute_src compute [PInt 1] [] p_on) = Inr (PInt 4)"
    using ok_body_needs_status_200
      [OF p_on_enabled up_post,
       where code = compute_src and func = compute and args = "[PInt 1]" and kwargs = "[]"
         and opts = default_options]
    by simp
  have b: "fst (wrapper demo_rt default_options ''http://odd/exec'' compute_src compute [PInt 1] [] p_on)
       = Inl (RuntimeError ''Remote execution failed: HTTP 500'')"
    using ok_body_needs_status_200
      [OF p_on_enabled odd_post,
       where code = compute_src and func = compute and args = "[PInt 1]" and kwargs = "[]"
         and opts = default_options]
    by (simp add: str_int_500)
  have c: "fst (wrapper demo_rt default_options ''http://refused/exec'' compute_src compute [PInt 1] [] p_on)
       = Inl (RuntimeError ''Remote execution failed: boom'')"
    using ok_body_needs_status_200
      [OF p_on_enabled refused_post,
       where code = compute_src and func = compute and args = "[PInt 1]" and kwargs = "[]"
         and opts = default_options]
    by simp
  from a b c show ?thesis by blast
qed

text \<open>
  The claim as stated fails: the endpoint answers transport status 500 with the body
  \<^verbatim>\<open>{"status": "ok", "result": 4}\<close>, and the wrapper raises instead of returning 4.
\<close>

theorem ok_body_under_status_500_counterexample:
  "post demo_rt ''http://odd/exec'' (payload_of compute_src (fn_name compute) [PInt 1] []) (timeout default_options)
     = Inr \<lparr>status_code = 500, resp_text = ''{...}'',
            resp_json = Some (PDict [(''status'', PStr ''ok''), (''result'', PInt 4)])\<rparr>
   \<and> wrapper demo_rt default_options ''http://odd/exec'' compute_src compute [PInt 1] [] p_on
     = (Inl (RuntimeError ''Remote execution failed: HTTP 500''), p_on)"
  using p_on_enabled
  by (simp add: odd_post wrapper_def remote_path_def on_decoded_def is_success_def echo_def
      default_options_def str_int_500)

subsection \<open>The local path (C5)\<close>

text \<open>
  C5: with remote execution disabled, a call of the decorated function is the call of
  the original function with the same positional and keyword arguments: the same
  returned value or raised error, and the same effect on the process.
\<close>

theorem local_path_is_original_call:
  assumes "remote_if_enabled rt opts env0 exports func = Inr w"
    and "\<not> remote_enabled (environ p)"
  shows "w args kwargs p = fn_call func args kwargs p"
proof -
  from decorated_is_wrapper [OF assms(1)] obtain code
    where "w = wrapper rt opts (resolve_url opts env0) code func" by blast
  with assms(2) show ?thesis by (simp add: wrapper_def)
qed

theorem local_path_is_original_call_witness:
  "\<exists>w. remote_if_enabled demo_rt default_options Map.empty [add_one] compute = Inr w
      \<and> \<not> remote_enabled (environ p_off)
      \<and> w [PInt 3] [] p_off = (Inr (PInt 8), p_off)"
proof -
  from compute_decorated obtain w
    where w: "remote_if_enabled demo_rt default_options Map.empty [add_one] compute = Inr w" by blast
  have "w [PInt 3] [] p_off = fn_call compute [PInt 3] [] p_off"
    using local_path_is_original_call [OF w p_off_disabled] .
  also have "\<dots> = (Inr (PInt 8), p_off)"
    by (simp add: compute_def int_call_def)
  finally show ?thesis using w p_off_disabled by blast
qed

subsection \<open>Undecodable bodies (C8)\<close>

text \<open>
  C8: when the response body cannot be decoded, the remote call fails with the
  protocol error (a RuntimeError in the code) whose message ends with the raw body
  text.
\<close>

theorem undecodable_body_raises_with_text:
  assumes "remote_enabled (environ p)"
    and "post rt url (payload_of code (fn_name func) args kwargs) (timeout opts) = Inr resp"
    and "resp_json resp = None"
  shows "wrapper rt opts url code func args kwargs p =
           (Inl (RuntimeError (''Remote returned non-JSON body: '' @ resp_text resp)), p)"
  using assms by (simp add: wrapper_def remote_path_def)

theorem undecodable_body_raises_with_text_witness:
  "wrapper demo_rt default_options ''http://garbled/exec'' compute_src compute [PInt 3] [] p_on =
     (Inl (RuntimeError ''Remote returned non-JSON body: <html>Bad Gateway</html>''), p_on)"
  using undecodable_body_raises_with_text
    [OF p_on_enabled garbled_post,
     where code = compute_src and func = compute and args = "[PInt 3]" and kwargs = "[]"
       and opts = default_options]
  by simp

subsection \<open>The enable switch (C9)\<close>

text \<open>
  C9: the switch is read at every call and never at decoration. Decorating under a
  different value of USE\_REMOTE\_EXEC gives the same wrapper, and each call of the
  wrapper takes the remote path exactly when the switch is on in the process state of
  that call.
\<close>

theorem switch_read_at_each_call:
  assumes "remote_if_enabled rt opts env0 exports func = Inr w"
  shows "remote_if_enabled rt opts (env0(''USE_REMOTE_EXEC'' := x)) exports func = Inr w \<and>
         (\<exists>code. full_code (dedent rt) exports func = Inr code \<and>
            (\<forall>args kwargs p. w args kwargs p =
               (if remote_enabled (environ p)
                then remote_path rt opts (resolve_url opts env0) code func args kwargs p
                else fn_call func args kwargs p)))"
proof -
  from decorated_is_wrapper [OF assms] obtain code
    where c: "full_code (dedent rt) exports func = Inr code"
      and w: "w = wrapper rt opts (resolve_url opts env0) code func" by blast
  have "remote_if_enabled rt opts (env0(''USE_REMOTE_EXEC'' := x)) exports func = Inr w"
    using c w by (simp add: remote_if_enabled_def decorator_def resolve_url_ignores_switch)
  moreover have "\<forall>args kwargs p. w args kwargs p =
               (if remote_enabled (environ p)
                then remote_path rt opts (resolve_url opts env0) code func args kwargs p
                else fn_call func args kwargs p)"
    using w by (simp add: wrapper_def)
  ultimately show ?thesis using c by blast
qed

text \<open>
  Decorated while the switch is on, called while it is off (the local value 8), called
  again after it is turned on (the endpoint's answer 4).
\<close>

theorem switch_read_at_each_call_witness:
  "\<exists>w. remote_if_enabled demo_rt opts_up switch_on [add_one] compute = Inr w
      \<and> remote_if_enabled demo_rt opts_up (switch_on(''USE_REMOTE_EXEC'' := None)) [add_one] compute = Inr w
      \<and> w [PInt 3] [] p_off = (Inr (PInt 8), p_off)
      \<and> w [PInt 3] [] p_on = (Inr (PInt 4), p_on)"
proof -
  from compute_decorated obtain w
    where w: "remote_if_enabled demo_rt opts_up switch_on [add_one] compute = Inr w" by blast
  from switch_read_at_each_call [OF w, of None] obtain code
    where a: "remote_if_enabled demo_rt opts_up (switch_on(''USE_REMOTE_EXEC'' := None)) [add_one] compute = Inr w"
      and b: "\<forall>args kwargs p. w args kwargs p =
               (if remote_enabled (environ p)
                then remote_path demo_rt opts_up (resolve_url opts_up switch_on) code compute args kwargs p
                else fn_call compute args kwargs p)" by blast
  have "w [PInt 3] [] p_off = (Inr (PInt 8), p_off)"
    using b p_off_disabled by (simp add: compute_def int_call_def)
  moreover have "w [PInt 3] [] p_on = (Inr (PInt 4), p_on)"
    using b p_on_enabled by (simp add: remote_up)
  ultimately show ?thesis using w a by blast
qed

section \<open>Properties of the Executor\<close>

subsection \<open>Auxiliary facts\<close>

lemma read_payload_of:
  "read_payload (request_of (payload_of code name args kwargs))
     = Inr (PStr code, PStr name, PList args, PDict kwargs)"
  by (simp add: read_payload_def request_of_def payload_of_def get_json_def)

lemma env_lookup_error: "env_lookup env k = Inl e \<Longrightarrow> is_Exception e"
  by (cases k) (auto split: option.splits)

text \<open>The except branch, read off: the reply it builds, or what leaves the handler.\<close>

lemma except_branch_eq:
  "except_branch py exc b st =
     (if is_Exception exc then
        (case exc_str py exc of
           Inl e \<Rightarrow> Inl e
         | Inr msg \<Rightarrow>
             if buf_closed (buffers st b) then Inl ValueError
             else Inr \<lparr>reply_status = 500,
                       reply_body = [(''status'', PStr ''error''), (''error'', PStr msg),
                                     (''traceback'', PStr (format_exc py exc)),
                                     (''stdout'', PStr (buf_text (buffers st b)))]\<rparr>)
      else Inl exc)"
  by (simp add: except_branch_def getvalue_def jsonify_def split: sum.splits)

lemmas handler_defs =
  exec_code_def new_buffer_def new_dict_def redirect_enter_def redirect_exit_def
  run_exec_def run_call_def after_run_def write_stdout_def Let_def

text \<open>The handler along each of its paths, for a request whose payload can be read.\<close>

lemma exec_code_exec_raises:
  assumes "read_payload req = Inr (code, func_name, args, kwargs)"
    and "py_exec py code Map.empty (world st) = r1" and "outcome r1 = Inl e"
  shows "fst (exec_code py req st) =
     (if is_Exception e then
        (case exc_str py e of
           Inl e' \<Rightarrow> Inl e'
         | Inr msg \<Rightarrow>
             if closes_stdout r1 then Inl ValueError
             else Inr \<lparr>reply_status = 500,
                       reply_body = [(''status'', PStr ''error''), (''error'', PStr msg),
                                     (''traceback'', PStr (format_exc py e)),
                                     (''stdout'', PStr (written r1))]\<rparr>)
      else Inl e)"
  using assms by (simp add: handler_defs except_branch_eq split: sum.splits)

lemma exec_code_lookup_fails:
  assumes "read_payload req = Inr (code, func_name, args, kwargs)"
    and "py_exec py code Map.empty (world st) = r1" and "outcome r1 = Inr ()"
    and "env_lookup (namespace_after r1) func_name = Inl e"
  shows "fst (exec_code py req st) =
     (case exc_str py e of
        Inl e' \<Rightarrow> Inl e'
      | Inr msg \<Rightarrow>
          if closes_stdout r1 then Inl ValueError
          else Inr \<lparr>reply_status = 500,
                    reply_body = [(''status'', PStr ''error''), (''error'', PStr msg),
                                  (''traceback'', PStr (format_exc py e)),
                                  (''stdout'', PStr (written r1))]\<rparr>)"
  using assms env_lookup_error [OF assms(4)]
  by (simp add: handler_defs except_branch_eq split: sum.splits)

lemma exec_code_call_raises:
  assumes "read_payload req = Inr (code, func_name, args, kwargs)"
    and "py_exec py code Map.empty (world st) = r1" and "outcome r1 = Inr ()"
    and "env_lookup (namespace_after r1) func_name = Inr f"
    and "py_call py f args kwargs (namespace_after r1) (world_after r1) = r2"
    and "outcome r2 = Inl e"
  shows "fst (exec_code py req st) =
     (if is_Exception e then
        (case exc_str py e of
           Inl e' \<Rightarrow> Inl e'
         | Inr msg \<Rightarrow>
             if closes_stdout r1 \<or> closes_stdout r2 then Inl ValueError
             else Inr \<lparr>reply_status = 500,
                       reply_body = [(''status'', PStr ''error''), (''error'', PStr msg),
                                     (''traceback'', PStr (format_exc py e)),
                                     (''stdout'', PStr (written r1 @ written r2))]\<rparr>)
      else Inl e)"
  using assms by (simp add: handler_defs except_branch_eq split: sum.splits)

lemma exec_code_call_returns:
  assumes "read_payload req = Inr (code, func_name, args, kwargs)"
    and "py_exec py code Map.empty (world st) = r1" and "outcome r1 = Inr ()"
    and "env_lookup (namespace_after r1) func_name = Inr f"
    and "py_call py f args kwargs (namespace_after r1) (world_after r1) = r2"
    and "outcome r2 = Inr v"
  shows "fst (exec_code py req st) =
     (if closes_stdout r1 \<or> closes_stdout r2 then
        (case exc_str py ValueError of Inl e' \<Rightarrow> Inl e' | Inr msg \<Rightarrow> Inl ValueError)
      else if serializable v then
        Inr \<lparr>reply_status = 200,
             reply_body = [(''status'', PStr ''ok''), (''result'', v),
                           (''stdout'', PStr (written r1 @ written r2))]\<rparr>
      else
        (case exc_str py TypeError of
           Inl e' \<Rightarrow> Inl e'
         | Inr msg \<Rightarrow>
             Inr \<lparr>reply_status = 500,
                  reply_body = [(''status'', PStr ''error''), (''error'', PStr msg),
                                (''traceback'', PStr (format_exc py TypeError)),
                                (''stdout'', PStr (written r1 @ written r2))]\<rparr>))"
  using assms
  by (simp add: handler_defs except_branch_eq success_reply_def getvalue_def jsonify_def
      split: sum.splits)

text \<open>Of the process, the handler's result depends on the world only.\<close>

lemma exec_code_reads_world_only:
  assumes "world st' = world st"
  shows "fst (exec_code py req st') = fst (exec_code py req st)"
  using assms
  by (simp add: handler_defs except_branch_eq success_reply_def getvalue_def jsonify_def
      split: sum.splits prod.splits)

text \<open>The example interpreter on its bundles.\<close>

lemma demo_exec_simps:
  "py_exec demo_python (PStr demo_bundle) Map.empty w =
     \<lparr>written = [], closes_stdout = False, outcome = Inr (),
      namespace_after = [''two'' \<mapsto> PObj 0, ''shout'' \<mapsto> PObj 1, ''crash'' \<mapsto> PObj 2,
                         ''leave'' \<mapsto> PObj 3, ''me'' \<mapsto> PObj 4],
      world_after = w\<rparr>"
  "py_exec demo_python (PStr demo_script) Map.empty w =
     \<lparr>written = ''5\<newline>'', closes_stdout = False,
      outcome = Inl (Raised True ''ModuleNotFoundError''),
      namespace_after = Map.empty, world_after = w\<rparr>"
  "py_exec demo_python (PStr demo_abort) Map.empty w =
     \<lparr>written = ''5\<newline>'', closes_stdout = False,
      outcome = Inl (Raised False ''SystemExit''),
      namespace_after = Map.empty, world_after = w\<rparr>"
  "py_exec demo_python (PStr demo_mute) Map.empty w =
     \<lparr>written = [], closes_stdout = False, outcome = Inr (),
      namespace_after = [''sys'' \<mapsto> PObj 9, ''hush'' \<mapsto> PObj 5],
      world_after = w\<rparr>"
  "py_exec demo_python (PStr demo_noisy) Map.empty w =
     \<lparr>written = ''1\<newline>'', closes_stdout = False, outcome = Inr (),
      namespace_after = [''f'' \<mapsto> PObj 6],
      world_after = w\<rparr>"
  "py_exec demo_python (PStr demo_tick) Map.empty w =
     \<lparr>written = [], closes_stdout = False, outcome = Inr (),
      namespace_after = [''os'' \<mapsto> PObj 9, ''tick'' \<mapsto> PObj 7],
      world_after = w\<rparr>"
  by (simp_all add: demo_python_def demo_exec_def demo_bundle_def demo_script_def
      demo_abort_def demo_mute_def demo_noisy_def demo_tick_def)

lemma demo_call_simps:
  "py_call demo_python (PObj 0) (PList []) (PDict []) env w =
     \<lparr>written = [], closes_stdout = False, outcome = Inr (PInt 2),
      namespace_after = env, world_after = w\<rparr>"
  "py_call demo_python (PObj 2) (PList []) (PDict []) env w =
     \<lparr>written = ''7\<newline>'', closes_stdout = False,
      outcome = Inl (Raised True ''ZeroDivisionError''),
      namespace_after = env, world_after = w\<rparr>"
  "py_call demo_python (PObj 3) (PList []) (PDict []) env w =
     \<lparr>written = ''7\<newline>'', closes_stdout = False,
      outcome = Inl (Raised False ''SystemExit''),
      namespace_after = env, world_after = w\<rparr>"
  "py_call demo_python (PObj 4) (PList []) (PDict []) env w =
     \<lparr>written = [], closes_stdout = False, outcome = Inr (PObj 4),
      namespace_after = env, world_after = w\<rparr>"
  "py_call demo_python (PObj 5) (PList []) (PDict []) env w =
     \<lparr>written = [], closes_stdout = True, outcome = Inr (PObj 5),
      namespace_after = env, world_after = w\<rparr>"
  "py_call demo_python (PObj 6) (PList []) (PDict []) env w =
     \<lparr>written = ''2\<newline>'', closes_stdout = False,
      outcome = Inl (Raised True ''ValueError''),
      namespace_after = env, world_after = w\<rparr>"
  "py_call demo_python (PObj 7) (PList []) (PDict []) env w =
     \<lparr>written = [], closes_stdout = False, outcome = Inr (PInt (int w)),
      namespace_after = env, world_after = Suc w\<rparr>"
  by (simp_all add: demo_python_def demo_call_def)

lemma demo_exc_str_eq: "exc_str demo_python e = Inr (demo_exc_str e)"
  by (simp add: demo_python_def)

lemma demo_format_exc:
  "format_exc demo_python e = ''Traceback (most recent call last): '' @ demo_exc_str e"
  by (simp add: demo_python_def)

lemma world_st_new: "world st_new = 0"
  by (simp add: st_new_def)

lemma world_st_used: "world st_used = 0"
  by (simp add: st_used_def)

text \<open>The handler on the example requests, in a process that has served nothing yet
  and in one that has.\<close>

lemma demo_two:
  "world st = 0 \<Longrightarrow>
   fst (exec_code demo_python (request_of (payload_of demo_bundle ''two'' [] [])) st) =
     Inr \<lparr>reply_status = 200,
          reply_body = [(''status'', PStr ''ok''), (''result'', PInt 2), (''stdout'', PStr [])]\<rparr>"
  by (simp add: exec_code_call_returns [OF read_payload_of demo_exec_simps(1) _ _ demo_call_simps(1)])

lemma exec_code_world_after_call:
  assumes "read_payload req = Inr (code, func_name, args, kwargs)"
    and "py_exec py code Map.empty (world st) = r1" and "outcome r1 = Inr ()"
    and "env_lookup (namespace_after r1) func_name = Inr f"
    and "py_call py f args kwargs (namespace_after r1) (world_after r1) = r2"
  shows "world (snd (exec_code py req st)) = world_after r2"
  using assms
  by (simp add: handler_defs split: sum.splits prod.splits)

lemma demo_two_world:
  "world (snd (exec_code demo_python (request_of (payload_of demo_bundle ''two'' [] [])) st)) = world st"
  by (simp add: exec_code_world_after_call [OF read_payload_of demo_exec_simps(1) _ _ demo_call_simps(1)])

text \<open>
  A bundle with a side effect outside its namespace: \<^verbatim>\<open>tick\<close> returns the number
  of entries in the working directory and adds one. The same request, repeated, gives
  0 and then 1: what a request leaves in the world is seen by the next.
\<close>

lemma side_effect_reaches_next_request:
  "fst (exec_code demo_python (request_of (payload_of demo_tick ''tick'' [] [])) st_new) =
     Inr \<lparr>reply_status = 200,
          reply_body = [(''status'', PStr ''ok''), (''result'', PInt 0), (''stdout'', PStr [])]\<rparr>
   \<and> fst (exec_code demo_python (request_of (payload_of demo_tick ''tick'' [] []))
          (snd (exec_code demo_python (request_of (payload_of demo_tick ''tick'' [] [])) st_new))) =
     Inr \<lparr>reply_status = 200,
          reply_body = [(''status'', PStr ''ok''), (''result'', PInt 1), (''stdout'', PStr [])]\<rparr>"
  by (simp add: exec_code_call_returns [OF read_payload_of demo_exec_simps(6) _ _ demo_call_simps(7)]
      exec_code_world_after_call [OF read_payload_of demo_exec_simps(6) _ _ demo_call_simps(7)]
      world_st_new)

subsection \<open>Failures become the Failure outcome (C2)\<close>

text \<open>
  C2, as the code has it. The handler catches with \<^verbatim>\<open>except Exception\<close>. A failure
  of the bundle's evaluation, of the lookup of the entry point, or of the entry point's
  invocation (a syntax error, a missing entry point, an argument mismatch, an exception
  of the entry point's own logic) whose exception derives from \<open>Exception\<close> is
  answered with transport status 500 and the body of status "error", the exception's
  text, the trace and the output captured so far, provided the reply can be built
  (\<^verbatim>\<open>str(exc)\<close> returns and the capture buffer has not been closed). A failure whose
  exception does not derive from \<open>Exception\<close> leaves the handler.
\<close>

theorem executor_failures_uniform:
  assumes "read_payload req = Inr (code, func_name, args, kwargs)"
    and "py_exec py code Map.empty (world st) = r1"
    and "py_call py f args kwargs (namespace_after r1) (world_after r1) = r2"
  shows
    "(outcome r1 = Inl e \<and> is_Exception e \<and> exc_str py e = Inr msg \<and> \<not> closes_stdout r1 \<longrightarrow>
        fst (exec_code py req st) =
          Inr \<lparr>reply_status = 500,
               reply_body = [(''status'', PStr ''error''), (''error'', PStr msg),
                             (''traceback'', PStr (format_exc py e)),
                             (''stdout'', PStr (written r1))]\<rparr>)
     \<and> (outcome r1 = Inr () \<and> env_lookup (namespace_after r1) func_name = Inl e \<and>
        exc_str py e = Inr msg \<and> \<not> closes_stdout r1 \<longrightarrow>
        fst (exec_code py req st) =
          Inr \<lparr>reply_status = 500,
               reply_body = [(''status'', PStr ''error''), (''error'', PStr msg),
                             (''traceback'', PStr (format_exc py e)),
                             (''stdout'', PStr (written r1))]\<rparr>)
     \<and> (outcome r1 = Inr () \<and> env_lookup (namespace_after r1) func_name = Inr f \<and>
        outcome r2 = Inl e \<and> is_Exception e \<and> exc_str py e = Inr msg \<and>
        \<not> closes_stdout r1 \<and> \<not> closes_stdout r2 \<longrightarrow>
        fst (exec_code py req st) =
          Inr \<lparr>reply_status = 500,
               reply_body = [(''status'', PStr ''error''), (''error'', PStr msg),
                             (''traceback'', PStr (format_exc py e)),
                             (''stdout'', PStr (written r1 @ written r2))]\<rparr>)
     \<and> (outcome r1 = Inl e \<and> \<not> is_Exception e \<longrightarrow> fst (exec_code py req st) = Inl e)
     \<and> (outcome r1 = Inr () \<and> env_lookup (namespace_after r1) func_name = Inr f \<and>
        outcome r2 = Inl e \<and> \<not> is_Exception e \<longrightarrow> fst (exec_code py req st) = Inl e)"
proof -
  note a = assms(1) assms(2)
  have "outcome r1 = Inl e \<Longrightarrow> is_Exception e \<Longrightarrow> exc_str py e = Inr msg \<Longrightarrow> \<not> closes_stdout r1 \<Longrightarrow>
        fst (exec_code py req st) =
          Inr \<lparr>reply_status = 500,
               reply_body = [(''status'', PStr ''error''), (''error'', PStr msg),
                             (''traceback'', PStr (format_exc py e)),
                             (''stdout'', PStr (written r1))]\<rparr>"
    by (simp add: exec_code_exec_raises [OF a])
  moreover have "outcome r1 = Inr () \<Longrightarrow> env_lookup (namespace_after r1) func_name = Inl e \<Longrightarrow>
        exc_str py e = Inr msg \<Longrightarrow> \<not> closes_stdout r1 \<Longrightarrow>
        fst (exec_code py req st) =
          Inr \<lparr>reply_status = 500,
               reply_body = [(''status'', PStr ''error''), (''error'', PStr msg),
                             (''traceback'', PStr (format_exc py e)),
                             (''stdout'', PStr (written r1))]\<rparr>"
    by (simp add: exec_code_lookup_fails [OF a])
  moreover have "outcome r1 = Inr () \<Longrightarrow> env_lookup (namespace_after r1) func_name = Inr f \<Longrightarrow>
        outcome r2 = Inl e \<Longrightarrow> is_Exception e \<Longrightarrow> exc_str py e = Inr msg \<Longrightarrow>
        \<not> closes_stdout r1 \<Longrightarrow> \<not> closes_stdout r2 \<Longrightarrow>
        fst (exec_code py req st) =
          Inr \<lparr>reply_status = 500,
               reply_body = [(''status'', PStr ''error''), (''error'', PStr msg),
                             (''traceback'', PStr (format_exc py e)),
                             (''stdout'', PStr (written r1 @ written r2))]\<rparr>"
    by (simp add: exec_code_call_raises [OF a _ _ assms(3)])
  moreover have "outcome r1 = Inl e \<Longrightarrow> \<not> is_Exception e \<Longrightarrow> fst (exec_code py req st) = Inl e"
    by (simp add: exec_code_exec_raises [OF a])
  moreover have "outcome r1 = Inr () \<Longrightarrow> env_lookup (namespace_after r1) func_name = Inr f \<Longrightarrow>
        outcome r2 = Inl e \<Longrightarrow> \<not> is_Exception e \<Longrightarrow> fst (exec_code py req st) = Inl e"
    by (simp add: exec_code_call_raises [OF a _ _ assms(3)])
  ultimately show ?thesis by blast
qed

text \<open>
  On the examples: a script that prints 5 and then imports a module that does not
  exist; the entry point \<^verbatim>\<open>absent\<close>, which the bundle does not define; the entry
  point \<^verbatim>\<open>crash\<close>, which prints 7 and divides by zero; a script that prints 5 and
  raises SystemExit.
\<close>

theorem executor_failures_uniform_witness:
  "fst (exec_code demo_python (request_of (payload_of demo_script ''main'' [] [])) st_new) =
     Inr \<lparr>reply_status = 500,
          reply_body = [(''status'', PStr ''error''), (''error'', PStr ''ModuleNotFoundError''),
                        (''traceback'', PStr ''Traceback (most recent call last): ModuleNotFoundError''),
                        (''stdout'', PStr ''5\<newline>'')]\<rparr>
   \<and> fst (exec_code demo_python (request_of (payload_of demo_bundle ''absent'' [] [])) st_new) =
     Inr \<lparr>reply_status = 500,
          reply_body = [(''status'', PStr ''error''), (''error'', PStr [CHR 0x27, CHR ''a'', CHR ''b'', CHR ''s'', CHR ''e'', CHR ''n'', CHR ''t'', CHR 0x27]),
                        (''traceback'', PStr (''Traceback (most recent call last): '' @ [CHR 0x27, CHR ''a'', CHR ''b'', CHR ''s'', CHR ''e'', CHR ''n'', CHR ''t'', CHR 0x27])),
                        (''stdout'', PStr [])]\<rparr>
   \<and> fst (exec_code demo_python (request_of (payload_of demo_bundle ''crash'' [] [])) st_new) =
     Inr \<lparr>reply_status = 500,
          reply_body = [(''status'', PStr ''error''), (''error'', PStr ''ZeroDivisionError''),
                        (''traceback'', PStr ''Traceback (most recent call last): ZeroDivisionError''),
                        (''stdout'', PStr ''7\<newline>'')]\<rparr>
   \<and> fst (exec_code demo_python (request_of (payload_of demo_abort ''main'' [] [])) st_new) =
     Inl (Raised False ''SystemExit'')"
proof -
  have 1: "fst (exec_code demo_python (request_of (payload_of demo_script ''main'' [] [])) st_new) =
     Inr \<lparr>reply_status = 500,
          reply_body = [(''status'', PStr ''error''), (''error'', PStr ''ModuleNotFoundError''),
                        (''traceback'', PStr ''Traceback (most recent call last): ModuleNotFoundError''),
                        (''stdout'', PStr ''5\<newline>'')]\<rparr>"
    using executor_failures_uniform
      [where e = "Raised True ''ModuleNotFoundError''" and msg = "''ModuleNotFoundError''" and st = st_new,
       OF read_payload_of demo_exec_simps(2) refl]
    by (simp add: demo_exc_str_eq demo_format_exc)
  have 2: "fst (exec_code demo_python (request_of (payload_of demo_bundle ''absent'' [] [])) st_new) =
     Inr \<lparr>reply_status = 500,
          reply_body = [(''status'', PStr ''error''), (''error'', PStr [CHR 0x27, CHR ''a'', CHR ''b'', CHR ''s'', CHR ''e'', CHR ''n'', CHR ''t'', CHR 0x27]),
                        (''traceback'', PStr (''Traceback (most recent call last): '' @ [CHR 0x27, CHR ''a'', CHR ''b'', CHR ''s'', CHR ''e'', CHR ''n'', CHR ''t'', CHR 0x27])),
                        (''stdout'', PStr [])]\<rparr>"
    using executor_failures_uniform
      [where e = "KeyError (PStr ''absent'')"
         and msg = "[CHR 0x27, CHR ''a'', CHR ''b'', CHR ''s'', CHR ''e'', CHR ''n'', CHR ''t'', CHR 0x27]"
         and st = st_new,
       OF read_payload_of [where name = "''absent''"] demo_exec_simps(1) refl]
    by (simp add: demo_exc_str_eq demo_format_exc)
  have 3: "fst (exec_code demo_python (request_of (payload_of demo_bundle ''crash'' [] [])) st_new) =
     Inr \<lparr>reply_status = 500,
          reply_body = [(''status'', PStr ''error''), (''error'', PStr ''ZeroDivisionError''),
                        (''traceback'', PStr ''Traceback (most recent call last): ZeroDivisionError''),
                        (''stdout'', PStr ''7\<newline>'')]\<rparr>"
    using executor_failures_uniform
      [where e = "Raised True ''ZeroDivisionError''" and msg = "''ZeroDivisionError''"
         and st = st_new,
       OF read_payload_of [where name = "''crash''"] demo_exec_simps(1) demo_call_simps(2)]
    by (simp add: demo_exc_str_eq demo_format_exc)
  have 4: "fst (exec_code demo_python (request_of (payload_of demo_abort ''main'' [] [])) st_new) =
     Inl (Raised False ''SystemExit'')"
    using executor_failures_uniform
      [where e = "Raised False ''SystemExit''" and st = st_new,
       OF read_payload_of demo_exec_simps(3) refl]
    by simp
  from 1 2 3 4 show ?thesis by blast
qed

text \<open>
  The claim as stated fails: the entry point \<^verbatim>\<open>leave\<close> prints 7 and raises
  SystemExit, which \<^verbatim>\<open>except Exception\<close> does not catch. The failure leaves the
  handler and no Failure outcome is returned.
\<close>

theorem system_exit_escapes_counterexample:
  "outcome (py_call demo_python (PObj 3) (PList []) (PDict []) Map.empty 0) = Inl (Raised False ''SystemExit'')
   \<and> fst (exec_code demo_python (request_of (payload_of demo_bundle ''leave'' [] [])) st_new) =
       Inl (Raised False ''SystemExit'')"
  by (simp add: demo_call_simps
      exec_code_call_raises [OF read_payload_of demo_exec_simps(1) _ _ demo_call_simps(3)])

subsection \<open>Captured output on failure (C3)\<close>

text \<open>
  C3, as the code has it. When the Failure outcome is built (the failure derives from
  \<open>Exception\<close>, \<^verbatim>\<open>str(exc)\<close> returns and the capture buffer is open), its
  stdout field is exactly the text written up to the failure: what the bundle's
  evaluation wrote when the evaluation or the lookup fails, followed by what the
  invocation wrote when the invocation fails. When the failure does not derive from
  \<open>Exception\<close>, no outcome is returned and the captured text is discarded with the
  buffer. This is the handler serving its request with no other request in between.
\<close>

theorem failure_stdout_is_output_so_far:
  assumes "read_payload req = Inr (code, func_name, args, kwargs)"
    and "py_exec py code Map.empty (world st) = r1"
    and "py_call py f args kwargs (namespace_after r1) (world_after r1) = r2"
  shows
    "(outcome r1 = Inl e \<and> is_Exception e \<and> exc_str py e = Inr msg \<and> \<not> closes_stdout r1 \<longrightarrow>
        (\<exists>rep. fst (exec_code py req st) = Inr rep \<and> reply_status rep = 500 \<and>
           map_of (reply_body rep) ''status'' = Some (PStr ''error'') \<and>
           map_of (reply_body rep) ''stdout'' = Some (PStr (written r1))))
     \<and> (outcome r1 = Inr () \<and> env_lookup (namespace_after r1) func_name = Inl e \<and>
        exc_str py e = Inr msg \<and> \<not> closes_stdout r1 \<longrightarrow>
        (\<exists>rep. fst (exec_code py req st) = Inr rep \<and> reply_status rep = 500 \<and>
           map_of (reply_body rep) ''status'' = Some (PStr ''error'') \<and>
           map_of (reply_body rep) ''stdout'' = Some (PStr (written r1))))
     \<and> (outcome r1 = Inr () \<and> env_lookup (namespace_after r1) func_name = Inr f \<and>
        outcome r2 = Inl e \<and> is_Exception e \<and> exc_str py e = Inr msg \<and>
        \<not> closes_stdout r1 \<and> \<not> closes_stdout r2 \<longrightarrow>
        (\<exists>rep. fst (exec_code py req st) = Inr rep \<and> reply_status rep = 500 \<and>
           map_of (reply_body rep) ''status'' = Some (PStr ''error'') \<and>
           map_of (reply_body rep) ''stdout'' = Some (PStr (written r1 @ written r2))))
     \<and> (outcome r1 = Inl e \<and> \<not> is_Exception e \<longrightarrow>
        (\<forall>rep. fst (exec_code py req st) \<noteq> Inr rep))
     \<and> (outcome r1 = Inr () \<and> env_lookup (namespace_after r1) func_name = Inr f \<and>
        outcome r2 = Inl e \<and> \<not> is_Exception e \<longrightarrow>
        (\<forall>rep. fst (exec_code py req st) \<noteq> Inr rep))"
proof -
  note a = assms(1) assms(2)
  have "outcome r1 = Inl e \<Longrightarrow> is_Exception e \<Longrightarrow> exc_str py e = Inr msg \<Longrightarrow> \<not> closes_stdout r1 \<Longrightarrow>
        (\<exists>rep. fst (exec_code py req st) = Inr rep \<and> reply_status rep = 500 \<and>
           map_of (reply_body rep) ''status'' = Some (PStr ''error'') \<and>
           map_of (reply_body rep) ''stdout'' = Some (PStr (written r1)))"
    by (simp add: exec_code_exec_raises [OF a])
  moreover have "outcome r1 = Inr () \<Longrightarrow> env_lookup (namespace_after r1) func_name = Inl e \<Longrightarrow>
        exc_str py e = Inr msg \<Longrightarrow> \<not> closes_stdout r1 \<Longrightarrow>
        (\<exists>rep. fst (exec_code py req st) = Inr rep \<and> reply_status rep = 500 \<and>
           map_of (reply_body rep) ''status'' = Some (PStr ''error'') \<and>
           map_of (reply_body rep) ''stdout'' = Some (PStr (written r1)))"
    by (simp add: exec_code_lookup_fails [OF a])
  moreover have "outcome r1 = Inr () \<Longrightarrow> env_lookup (namespace_after r1) func_name = Inr f \<Longrightarrow>
        outcome r2 = Inl e \<Longrightarrow> is_Exception e \<Longrightarrow> exc_str py e = Inr msg \<Longrightarrow>
        \<not> closes_stdout r1 \<Longrightarrow> \<not> closes_stdout r2 \<Longrightarrow>
        (\<exists>rep. fst (exec_code py req st) = Inr rep \<and> reply_status rep = 500 \<and>
           map_of (reply_body rep) ''status'' = Some (PStr ''error'') \<and>
           map_of (reply_body rep) ''stdout'' = Some (PStr (written r1 @ written r2)))"
    by (simp add: exec_code_call_raises [OF a _ _ assms(3)])
  moreover have "outcome r1 = Inl e \<Longrightarrow> \<not> is_Exception e \<Longrightarrow>
        (\<forall>rep. fst (exec_code py req st) \<noteq> Inr rep)"
    by (simp add: exec_code_exec_raises [OF a])
  moreover have "outcome r1 = Inr () \<Longrightarrow> env_lookup (namespace_after r1) func_name = Inr f \<Longrightarrow>
        outcome r2 = Inl e \<Longrightarrow> \<not> is_Exception e \<Longrightarrow>
        (\<forall>rep. fst (exec_code py req st) \<noteq> Inr rep)"
    by (simp add: exec_code_call_raises [OF a _ _ assms(3)])
  ultimately show ?thesis by blast
qed

text \<open>
  On the examples: the entry point \<^verbatim>\<open>f\<close> of a bundle that prints 1 at top level
  prints 2 and raises ValueError, and the reply carries both lines; the entry point
  \<^verbatim>\<open>leave\<close> prints 7 and raises SystemExit, and there is no reply.
\<close>

theorem failure_stdout_is_output_so_far_witness:
  "(\<exists>rep. fst (exec_code demo_python (request_of (payload_of demo_noisy ''f'' [] [])) st_new) = Inr rep
       \<and> reply_status rep = 500
       \<and> map_of (reply_body rep) ''status'' = Some (PStr ''error'')
       \<and> map_of (reply_body rep) ''stdout'' = Some (PStr ''1\<newline>2\<newline>''))
   \<and> (\<forall>rep. fst (exec_code demo_python (request_of (payload_of demo_bundle ''leave'' [] [])) st_new) \<noteq> Inr rep)"
proof -
  have 1: "\<exists>rep. fst (exec_code demo_python (request_of (payload_of demo_noisy ''f'' [] [])) st_new) = Inr rep
       \<and> reply_status rep = 500
       \<and> map_of (reply_body rep) ''status'' = Some (PStr ''error'')
       \<and> map_of (reply_body rep) ''stdout'' = Some (PStr ''1\<newline>2\<newline>'')"
    using failure_stdout_is_output_so_far
      [where e = "Raised True ''ValueError''" and msg = "''ValueError''" and st = st_new,
       OF read_payload_of [where name = "''f''"] demo_exec_simps(5) demo_call_simps(6)]
    by (simp add: demo_exc_str_eq)
  have 2: "\<forall>rep. fst (exec_code demo_python (request_of (payload_of demo_bundle ''leave'' [] [])) st_new) \<noteq> Inr rep"
    using failure_stdout_is_output_so_far
      [where e = "Raised False ''SystemExit''" and st = st_new,
       OF read_payload_of [where name = "''leave''"] demo_exec_simps(1) demo_call_simps(3)]
    by simp
  from 1 2 show ?thesis by blast
qed

text \<open>
  The claim as stated fails: the script prints 5 and then raises SystemExit at top
  level. Its evaluation fails after writing a line, and the handler returns no Failure
  outcome at all, so no stdout field carries the line.
\<close>

theorem output_lost_on_system_exit_counterexample:
  "written (py_exec demo_python (PStr demo_abort) Map.empty (world st_new)) = ''5\<newline>''
   \<and> outcome (py_exec demo_python (PStr demo_abort) Map.empty (world st_new)) = Inl (Raised False ''SystemExit'')
   \<and> fst (exec_code demo_python (request_of (payload_of demo_abort ''main'' [] [])) st_new) =
       Inl (Raised False ''SystemExit'')"
  by (simp add: demo_exec_simps exec_code_exec_raises [OF read_payload_of demo_exec_simps(3)])

text \<open>
  Two requests that overlap. The redirection is of the one \<^verbatim>\<open>sys.stdout\<close> of the
  process: request B enters its redirection after A's bundle has printed 1 and before
  A's entry point prints 2 and raises. A's Failure outcome has only the first line and
  the second is in B's buffer, where the same request served alone carries both lines.
\<close>

lemma overlapping_request_takes_output:
  "fst (overlapped demo_python (PStr demo_noisy) (PStr ''f'') (PList []) (PDict []) st_new) =
     Inr \<lparr>reply_status = 500,
          reply_body = [(''status'', PStr ''error''), (''error'', PStr ''ValueError''),
                        (''traceback'', PStr ''Traceback (most recent call last): ValueError''),
                        (''stdout'', PStr ''1\<newline>'')]\<rparr>
   \<and> (case snd (overlapped demo_python (PStr demo_noisy) (PStr ''f'') (PList []) (PDict []) st_new) of
        (buf_b, st) \<Rightarrow> buf_text (buffers st buf_b) = ''2\<newline>'')
   \<and> fst (exec_code demo_python (request_of (payload_of demo_noisy ''f'' [] [])) st_new) =
     Inr \<lparr>reply_status = 500,
          reply_body = [(''status'', PStr ''error''), (''error'', PStr ''ValueError''),
                        (''traceback'', PStr ''Traceback (most recent call last): ValueError''),
                        (''stdout'', PStr ''1\<newline>2\<newline>'')]\<rparr>"
proof -
  have "fst (exec_code demo_python (request_of (payload_of demo_noisy ''f'' [] [])) st_new) =
     Inr \<lparr>reply_status = 500,
          reply_body = [(''status'', PStr ''error''), (''error'', PStr ''ValueError''),
                        (''traceback'', PStr ''Traceback (most recent call last): ValueError''),
                        (''stdout'', PStr ''1\<newline>2\<newline>'')]\<rparr>"
    by (simp add: exec_code_call_raises [OF read_payload_of demo_exec_simps(5) _ _ demo_call_simps(6)]
        demo_exc_str_eq demo_format_exc)
  moreover have "fst (overlapped demo_python (PStr demo_noisy) (PStr ''f'') (PList []) (PDict []) st_new) =
     Inr \<lparr>reply_status = 500,
          reply_body = [(''status'', PStr ''error''), (''error'', PStr ''ValueError''),
                        (''traceback'', PStr ''Traceback (most recent call last): ValueError''),
                        (''stdout'', PStr ''1\<newline>'')]\<rparr>"
    by (simp add: overlapped_def new_buffer_def new_dict_def redirect_enter_def redirect_exit_def
        run_exec_def run_call_def after_run_def write_stdout_def Let_def st_new_def
        demo_exec_simps demo_call_simps except_branch_eq demo_exc_str_eq demo_format_exc)
  moreover have "(case snd (overlapped demo_python (PStr demo_noisy) (PStr ''f'') (PList []) (PDict []) st_new) of
        (buf_b, st) \<Rightarrow> buf_text (buffers st buf_b) = ''2\<newline>'')"
    by (simp add: overlapped_def new_buffer_def new_dict_def redirect_enter_def redirect_exit_def
        run_exec_def run_call_def after_run_def write_stdout_def Let_def st_new_def
        demo_exec_simps demo_call_simps except_branch_eq demo_exc_str_eq demo_format_exc)
  ultimately show ?thesis by blast
qed

subsection \<open>Requests do not share state (C7)\<close>

text \<open>
  C7: a request's outcome does not depend on what earlier requests left in the process.
  Every request gets a new buffer and a new, empty namespace and redirects
  \<^verbatim>\<open>sys.stdout\<close> to its own buffer, so the buffers and namespaces of earlier
  requests and the earlier target of \<^verbatim>\<open>sys.stdout\<close> are not read: two process
  states with the same world give the same outcome. In particular, when handling the
  request leaves the world as it was (the code has no side effect outside its
  namespace), handling the same request again in the process state the first handling
  left gives the same outcome: equal reply, with its result or its error, or the same
  exception leaving the handler.
\<close>

theorem executions_do_not_share_state:
  "(world st' = world st \<longrightarrow> fst (exec_code py req st') = fst (exec_code py req st))
   \<and> (world (snd (exec_code py req st)) = world st \<longrightarrow>
        fst (exec_code py req (snd (exec_code py req st))) = fst (exec_code py req st))"
  using exec_code_reads_world_only [of st' st py req]
    exec_code_reads_world_only [of "snd (exec_code py req st)" st py req]
  by blast

text \<open>
  On the examples: the entry point \<^verbatim>\<open>two\<close> in a process that has served nothing
  yet, in a process where earlier requests left a namespace that binds \<^verbatim>\<open>two\<close>
  to another function and closed buffers, and a second time in the process the first
  handling left: the result is 2 each time.
\<close>

theorem executions_do_not_share_state_witness:
  "world st_used = world st_new
   \<and> namespaces st_used (next_id st_used) ''two'' = Some (PObj 3)
   \<and> fst (exec_code demo_python (request_of (payload_of demo_bundle ''two'' [] [])) st_new) =
       Inr \<lparr>reply_status = 200,
            reply_body = [(''status'', PStr ''ok''), (''result'', PInt 2), (''stdout'', PStr [])]\<rparr>
   \<and> fst (exec_code demo_python (request_of (payload_of demo_bundle ''two'' [] [])) st_used) =
       Inr \<lparr>reply_status = 200,
            reply_body = [(''status'', PStr ''ok''), (''result'', PInt 2), (''stdout'', PStr [])]\<rparr>
   \<and> fst (exec_code demo_python (request_of (payload_of demo_bundle ''two'' [] []))
          (snd (exec_code demo_python (request_of (payload_of demo_bundle ''two'' [] [])) st_new))) =
       Inr \<lparr>reply_status = 200,
            reply_body = [(''status'', PStr ''ok''), (''result'', PInt 2), (''stdout'', PStr [])]\<rparr>"
proof -
  have w: "world st_used = world st_new"
    by (simp add: world_st_used world_st_new)
  have n: "namespaces st_used (next_id st_used) ''two'' = Some (PObj 3)"
    by (simp add: st_used_def)
  have a: "fst (exec_code demo_python (request_of (payload_of demo_bundle ''two'' [] [])) st_new) =
       Inr \<lparr>reply_status = 200,
            reply_body = [(''status'', PStr ''ok''), (''result'', PInt 2), (''stdout'', PStr [])]\<rparr>"
    by (simp add: demo_two world_st_new)
  have b: "fst (exec_code demo_python (request_of (payload_of demo_bundle ''two'' [] [])) st_used) =
       fst (exec_code demo_python (request_of (payload_of demo_bundle ''two'' [] [])) st_new)"
    using executions_do_not_share_state
      [of st_used st_new demo_python "request_of (payload_of demo_bundle ''two'' [] [])"] w
    by blast
  have c: "fst (exec_code demo_python (request_of (payload_of demo_bundle ''two'' [] []))
          (snd (exec_code demo_python (request_of (payload_of demo_bundle ''two'' [] [])) st_new))) =
       fst (exec_code demo_python (request_of (payload_of demo_bundle ''two'' [] [])) st_new)"
    using executions_do_not_share_state
      [of st_used st_new demo_python "request_of (payload_of demo_bundle ''two'' [] [])"]
      demo_two_world [of st_new]
    by blast
  from w n a b c show ?thesis by simp
qed

subsection \<open>Results that cannot be serialised (C10)\<close>

text \<open>
  A result that cannot be serialised makes \<^verbatim>\<open>jsonify\<close> raise TypeError inside the
  \<^verbatim>\<open>try\<close> block, and the except branch answers it like any other failure, with
  status 500, the message, the trace and the captured output, as long as the capture
  buffer is open.
\<close>

lemma unserializable_result_reply:
  assumes "read_payload req = Inr (code, func_name, args, kwargs)"
    and "py_exec py code Map.empty (world st) = r1" and "outcome r1 = Inr ()"
    and "env_lookup (namespace_after r1) func_name = Inr f"
    and "py_call py f args kwargs (namespace_after r1) (world_after r1) = r2"
    and "outcome r2 = Inr v" and "\<not> serializable v"
    and "exc_str py TypeError = Inr msg"
    and "\<not> closes_stdout r1" and "\<not> closes_stdout r2"
  shows "fst (exec_code py req st) =
           Inr \<lparr>reply_status = 500,
                reply_body = [(''status'', PStr ''error''), (''error'', PStr msg),
                              (''traceback'', PStr (format_exc py TypeError)),
                              (''stdout'', PStr (written r1 @ written r2))]\<rparr>"
  using assms(7-10) by (simp add: exec_code_call_returns [OF assms(1-6)])

text \<open>
  C10 at an entry point that closes \<^verbatim>\<open>sys.stdout\<close> and returns itself, a function
  object that cannot be serialised. \<^verbatim>\<open>stdout_buf.getvalue()\<close> raises ValueError in
  the \<^verbatim>\<open>try\<close> block and again in the except branch, where nothing catches it: the
  handler returns no Failure outcome.
\<close>

theorem closed_stdout_leaves_no_failure_outcome:
  "outcome (py_call demo_python (PObj 5) (PList []) (PDict []) Map.empty 0) = Inr (PObj 5)
   \<and> \<not> serializable (PObj 5)
   \<and> closes_stdout (py_call demo_python (PObj 5) (PList []) (PDict []) Map.empty 0)
   \<and> fst (exec_code demo_python (request_of (payload_of demo_mute ''hush'' [] [])) st_new) =
       Inl ValueError"
  by (simp add: demo_call_simps demo_exc_str_eq
      exec_code_call_returns [OF read_payload_of demo_exec_simps(4) _ _ demo_call_simps(5)])

section \<open>Properties of the Bundler\<close>

subsection \<open>Auxiliary facts\<close>

lemma dep_sources_available:
  "map fn_source exports = map Inr srcs \<Longrightarrow>
     dep_sources ded exports = Inr (map (\<lambda>src. ded (strip_decorators src)) srcs)"
proof (induction exports arbitrary: srcs)
  case Nil
  then show ?case by simp
next
  case (Cons obj objs)
  then obtain s ss where "srcs = s # ss" and "fn_source obj = Inr s" and "map fn_source objs = map Inr ss"
    by (cases srcs) auto
  with Cons.IH [of ss] show ?case by simp
qed

lemma pop_decorators_dropWhile:
  "pop_decorators ls = dropWhile (\<lambda>l. startswith (lstrip l) ''@'') ls"
  by (induction ls) auto

text \<open>The bundle when every source is available: the helpers' fragments joined by
  two line feeds, then two line feeds and the entry function's fragment.\<close>

lemma full_code_available:
  assumes "fn_source func = Inr src" and "map fn_source exports = map Inr srcs"
  shows "full_code ded exports func =
           Inr (join [LF, LF] (map (\<lambda>s. ded (strip_decorators s)) srcs) @ [LF, LF] @
                ded (strip_decorators src))"
  using assms(1) dep_sources_available [OF assms(2)] by (simp add: full_code_def)

text \<open>The example sources without their leading decorator lines.\<close>

lemma strip_add_one: "strip_decorators add_one_src = ''def add_one(x):\<newline>    return x + 1''"
  by code_simp

lemma strip_compute: "strip_decorators compute_src = ''def compute(x):\<newline>    return add_one(x) * 2''"
  by code_simp

lemma strip_outer:
  "strip_decorators outer_src = ''def outer():\<newline>    @remote_if_enabled()\<newline>    def inner():\<newline>        return 1\<newline>    return inner()''"
  by code_simp

lemma strip_wide:
  "strip_decorators wide_src = ''    timeout=5,\<newline>)\<newline>def wide(x):\<newline>    return x + 1''"
  by code_simp

text \<open>\<^verbatim>\<open>textwrap.dedent\<close> on them: no common margin, nothing changes; and on a
  definition taken from inside a class, where the margin of four spaces goes.\<close>

lemma dedent_add_one:
  "textwrap_dedent ''def add_one(x):\<newline>    return x + 1'' = ''def add_one(x):\<newline>    return x + 1''"
  by code_simp

lemma dedent_compute:
  "textwrap_dedent ''def compute(x):\<newline>    return add_one(x) * 2'' = ''def compute(x):\<newline>    return add_one(x) * 2''"
  by code_simp

lemma dedent_outer:
  "textwrap_dedent ''def outer():\<newline>    @remote_if_enabled()\<newline>    def inner():\<newline>        return 1\<newline>    return inner()''
     = ''def outer():\<newline>    @remote_if_enabled()\<newline>    def inner():\<newline>        return 1\<newline>    return inner()''"
  by code_simp

lemma dedent_wide:
  "textwrap_dedent ''    timeout=5,\<newline>)\<newline>def wide(x):\<newline>    return x + 1''
     = ''    timeout=5,\<newline>)\<newline>def wide(x):\<newline>    return x + 1''"
  by code_simp

lemma dedent_method:
  "textwrap_dedent (strip_decorators ''    @remote_func\<newline>    def m(self):\<newline>\<newline>        return 1\<newline>'')
     = ''def m(self):\<newline>\<newline>    return 1''"
  by code_simp

text \<open>The bundle of the example program: helper, blank line, entry function.\<close>

lemma compute_bundle:
  "full_code textwrap_dedent [add_one] compute
     = Inr ''def add_one(x):\<newline>    return x + 1\<newline>\<newline>def compute(x):\<newline>    return add_one(x) * 2''"
  by (simp add: full_code_def add_one_def compute_def strip_add_one strip_compute
      dedent_add_one dedent_compute LF_def)

subsection \<open>The shape of the bundle (C4)\<close>

text \<open>
  C4 at an entry function whose decorator call is written over three lines. Only the
  first of the three lines begins with \<open>@\<close>, so the loop of
  \<^verbatim>\<open>_strip_decorators\<close> stops at the second: the entry function's fragment begins
  with the rest of the decorator call, \<^verbatim>\<open>textwrap.dedent\<close> finds no common margin
  (the closing parenthesis is not indented), and the fragment begins indented. It is
  not valid top-level source.
\<close>

theorem multi_line_decorator_stays_in_fragment:
  "textwrap_dedent (strip_decorators wide_src)
     = ''    timeout=5,\<newline>)\<newline>def wide(x):\<newline>    return x + 1''
   \<and> unexpected_indent (textwrap_dedent (strip_decorators wide_src))
   \<and> full_code textwrap_dedent [add_one] wide
     = Inr ''def add_one(x):\<newline>    return x + 1\<newline>\<newline>    timeout=5,\<newline>)\<newline>def wide(x):\<newline>    return x + 1''"
proof -
  have "unexpected_indent ''    timeout=5,\<newline>)\<newline>def wide(x):\<newline>    return x + 1''"
    by code_simp
  then show ?thesis
    by (simp add: full_code_def add_one_def wide_def strip_add_one strip_wide
        dedent_add_one dedent_wide LF_def)
qed

subsection \<open>What the bundle may refer to (C6)\<close>

text \<open>
  C6 at an entry function that decorates a nested function. The loop of
  \<^verbatim>\<open>_strip_decorators\<close> removes leading lines only; the inner decorator line is
  not one, stays in the fragment, and the bundle names the client's decorator.
\<close>

theorem nested_decorator_stays_in_bundle:
  "full_code textwrap_dedent [] outer
     = Inr ''\<newline>\<newline>def outer():\<newline>    @remote_if_enabled()\<newline>    def inner():\<newline>        return 1\<newline>    return inner()''
   \<and> mentions_dispatch ''\<newline>\<newline>def outer():\<newline>    @remote_if_enabled()\<newline>    def inner():\<newline>        return 1\<newline>    return inner()''"
proof -
  have "mentions_dispatch ''\<newline>\<newline>def outer():\<newline>    @remote_if_enabled()\<newline>    def inner():\<newline>        return 1\<newline>    return inner()''"
    unfolding mentions_dispatch_def by code_simp
  then show ?thesis
    by (simp add: full_code_def outer_def strip_outer dedent_outer LF_def)
qed

end
